theory Spec2Isabelle
  imports Main "HOL-Library.Sublist"
begin

section \<open>The GAE engine of mallory (gae.go)\<close>

text \<open>
  The engine has two operations on a session: \<open>Serve\<close> relays a plain proxy request
  through an HTTP POST, and \<open>Connect\<close> intercepts a CONNECT tunnel: it hijacks the client
  connection, dials the proxy itself, answers 200, wraps the client in TLS and relays
  pipelined requests with two loops that share a buffered channel.

  Both operations are input/output code. The model makes every effect an event of a
  trace, in program order, and takes the result of every call into the Go library or
  into a part of the package that lies outside gae.go from a record of the environment
  (\<open>world\<close>). The control flow, the tests on results, the logging and the order of calls
  are those of gae.go.
\<close>

subsection \<open>Data\<close>

text \<open>A Go \<open>error\<close> value: the code tells \<open>io.EOF\<close> from every other error, and prints
  the text of \<open>err.Error()\<close>.\<close>

datatype error = EOF | Failure string

fun Error :: "error \<Rightarrow> string" where
  "Error EOF = ''EOF''"
| "Error (Failure m) = m"

text \<open>The fields of \<open>url.URL\<close>; the engine itself reads \<open>Host\<close> only.\<close>

record url =
  url_Scheme :: string
  url_Host :: string
  url_Path :: string
  url_RawQuery :: string

text \<open>The fields of \<open>http.Request\<close> that the engine reads or writes. \<open>URL\<close> is a
  pointer in Go and may be nil; \<open>Header.Set\<close> replaces the values of a key by one
  value.\<close>

record request =
  req_Method :: string
  req_URL :: "url option"
  req_Header :: "string \<rightharpoonup> string list"
  req_Close :: bool

record response =
  resp_Status :: string
  resp_StatusCode :: int
  resp_Header :: "string \<rightharpoonup> string list"
  resp_Body :: string
  resp_Close :: bool

text \<open>The fields of \<open>Env\<close> and \<open>Session\<close> (declared elsewhere in the package) that
  gae.go uses. \<open>Session.ID\<close> is an \<open>int64\<close> on which no arithmetic is done.\<close>

record Env =
  AppSpot :: string
  Addr :: string

record Session =
  ID :: int
  Request :: request

text \<open>
  The environment. Each field is the result of one call that gae.go makes outside
  itself, as a function of the call's arguments. The four lists are the results of the
  successive calls on the two connections of a tunnel, in the order of the calls; a
  call for which the list holds no further result does not return: it blocks, or, for
  \<open>WriteProxy\<close> on the backend connection, it panics where \<open>WriteProxy_panics\<close> says
  so.
  \<^item> \<open>SplitHostPort\<close>: \<open>net.SplitHostPort\<close>;
  \<^item> \<open>Hijack\<close>: \<open>None\<close> when the response writer is no \<open>http.Hijacker\<close>, otherwise the
    error of \<open>Hijack()\<close>;
  \<^item> \<open>Dial\<close>: the error of \<open>net.Dial(network, address)\<close>;
  \<^item> \<open>Certs_Get\<close>: the error of \<open>CertPool.Get(host)\<close>;
  \<^item> \<open>Handshake\<close>: the error of the TLS handshake with the client;
  \<^item> \<open>url_Parse\<close>, \<open>url_String\<close>: \<open>url.Parse\<close> (which returns a nil URL with an error)
    and \<open>URL.String\<close>;
  \<^item> \<open>WriteProxy_buf\<close>: the bytes that \<open>r.WriteProxy(&buf)\<close> writes, or its error;
  \<^item> \<open>Post\<close>: \<open>http.Post(url, contentType, body)\<close>;
  \<^item> \<open>ReadResponse_body\<close>: \<open>http.ReadResponse\<close> on the body of the posted response: it
    reads the status line and the headers of the embedded response and leaves its
    body on the stream;
  \<^item> \<open>io_Copy\<close>: the error of \<open>io.Copy(w, cres.Body)\<close>, which reads the body of the
    embedded response from the stream and writes it to the client;
  \<^item> \<open>Since\<close>: the text of \<open>BeautifyDuration(time.Since(start))\<close>;
  \<^item> \<open>ReadRequest_sconn\<close>: the results of \<open>http.ReadRequest\<close> on the TLS connection;
  \<^item> \<open>WriteProxy_rconn\<close>: the errors of \<open>creq.WriteProxy(rconn)\<close>;
  \<^item> \<open>WriteProxy_panics\<close>: whether a call of \<open>creq.WriteProxy(rconn)\<close> that does not
    return ends in a panic instead of blocking (\<open>net/http\<close> dereferences the URL of
    the request it writes);
  \<^item> \<open>ReadResponse_rconn\<close>: the results of \<open>http.ReadResponse\<close> on the backend
    connection;
  \<^item> \<open>Write_sconn\<close>: the errors of \<open>cresp.Write(sconn)\<close>.
\<close>

record world =
  SplitHostPort :: "string \<Rightarrow> error + string \<times> string"
  Hijack :: "error option option"
  Dial :: "string \<Rightarrow> string \<Rightarrow> error option"
  Certs_Get :: "string \<Rightarrow> error option"
  Handshake :: "error option"
  url_Parse :: "string \<Rightarrow> error + url"
  url_String :: "url \<Rightarrow> string"
  WriteProxy_buf :: "request \<Rightarrow> error + string"
  Post :: "string \<Rightarrow> string \<Rightarrow> string \<Rightarrow> error + response"
  ReadResponse_body :: "response \<Rightarrow> request \<Rightarrow> error + response"
  io_Copy :: "response \<Rightarrow> error option"
  Since :: string
  ReadRequest_sconn :: "(error + request) list"
  WriteProxy_rconn :: "error option list"
  WriteProxy_panics :: "request \<Rightarrow> bool"
  ReadResponse_rconn :: "(error + response) list"
  Write_sconn :: "error option list"

text \<open>
  The events of a trace. \<open>SessionError f args\<close> and \<open>SessionInfo f args\<close> are the calls
  \<open>s.Error(f, args...)\<close> and \<open>s.Info(f, args...)\<close>, with the format and its arguments as
  the code passes them. \<open>ConnWrite\<close> is a write on the raw hijacked connection;
  \<open>RespWrite\<close> is \<open>cresp.Write(sconn)\<close>, through the TLS layer. The events of the relay
  carry the result of the call.
\<close>

datatype event =
    SessionError string "string list"
  | SessionInfo string "string list"
  | BufWriteProxy request
  | HTTPPost string string string
  | ReadEmbedded response request
  | CopyHeader response
  | WriteHeader int
  | CopyBody response
  | BodyClose response
  | HijackConn
  | DialBackend string string
  | ConnWrite string
  | CertsGet string
  | TLSServer string
  | TLSHandshake
  | ConnClose
  | RconnClose
  | SconnClose
  | ReadRequest "error + request"
  | WriteProxy request "error option"
  | ChanSend request
  | ChanClose
  | ChanRecv "request option"
  | ReadResponse request "error + response"
  | RespWrite response "error option"
  | Panic

subsection \<open>Serve\<close>

text \<open>The endpoint of the POST: \<open>https://<AppSpot>.appspot.com/http\<close>, replaced by a
  local one when \<open>AppSpot\<close> is \<open>debug\<close>.\<close>

definition post_url :: "Env \<Rightarrow> string" where
  "post_url e =
     (if AppSpot e = ''debug'' then ''http://localhost:8080/http''
      else ''https://'' @ AppSpot e @ ''.appspot.com/http'')"

text \<open>\<open>EngineGAE.Serve\<close>. The deferred closes of the two bodies run when the function
  returns, the last deferred first.\<close>

definition Serve :: "world \<Rightarrow> Env \<Rightarrow> Session \<Rightarrow> event list" where
  "Serve w e s =
     (let r = Request s in
      if req_Method r = ''CONNECT''
      then [SessionError ''this function can not handle CONNECT method'' []]
      else
        case WriteProxy_buf w r of
          Inl err \<Rightarrow> [BufWriteProxy r, SessionError ''WriteProxy: %s'' [Error err]]
        | Inr buf \<Rightarrow>
            (case Post w (post_url e) ''application/data'' buf of
               Inl err \<Rightarrow>
                 [BufWriteProxy r, HTTPPost (post_url e) ''application/data'' buf,
                  SessionError ''Post: %s'' [Error err]]
             | Inr resp \<Rightarrow>
                 if resp_StatusCode resp = 500
                 then [BufWriteProxy r, HTTPPost (post_url e) ''application/data'' buf,
                       SessionError ''%s %s'' [req_Method r, resp_Status resp],
                       BodyClose resp]
                 else
                   (case ReadResponse_body w resp r of
                      Inl err \<Rightarrow>
                        [BufWriteProxy r, HTTPPost (post_url e) ''application/data'' buf,
                         ReadEmbedded resp r,
                         SessionError ''ReadResponse: %s'' [Error err],
                         BodyClose resp]
                    | Inr cres \<Rightarrow>
                        [BufWriteProxy r, HTTPPost (post_url e) ''application/data'' buf,
                         ReadEmbedded resp r,
                         CopyHeader cres, WriteHeader (resp_StatusCode cres),
                         CopyBody cres] @
                        (case io_Copy w cres of
                           Some err \<Rightarrow> [SessionError ''Copy: %s'' [Error err]]
                         | None \<Rightarrow>
                             [SessionInfo ''RESPONSE %s %s'' [resp_Status resp, Since w]]) @
                        [BodyClose cres, BodyClose resp])))"

subsection \<open>Connect: from the request to the TLS handshake\<close>

definition ok_200 :: string where
  "ok_200 = ''HTTP/1.1 200 OK'' @ [CHR 0x0D, CHR 0x0A, CHR 0x0D, CHR 0x0A]"

text \<open>
  The sequential part of \<open>EngineGAE.Connect\<close>, up to the handshake. The result is the
  trace and, when the handshake succeeded, the host of the tunnel. On every return the
  deferred closes run, the last deferred first. Reading \<open>r.URL.Host\<close> of a request
  without URL is a nil dereference.
\<close>

definition Connect_setup :: "world \<Rightarrow> Env \<Rightarrow> Session \<Rightarrow> event list \<times> string option" where
  "Connect_setup w e s =
     (let r = Request s in
      if req_Method r \<noteq> ''CONNECT''
      then ([SessionError ''this function can only handle CONNECT method'' []], None)
      else
        case req_URL r of
          None \<Rightarrow> ([Panic], None)
        | Some u \<Rightarrow>
            (case SplitHostPort w (url_Host u) of
               Inl err \<Rightarrow> ([SessionError ''SplitHostPort: %s'' [Error err]], None)
             | Inr (host, port) \<Rightarrow>
                 if port \<noteq> ''443''
                 then ([SessionError ''unsupported CONNECT port: %s'' [port]], None)
                 else
                   (case Hijack w of
                      None \<Rightarrow> ([SessionError ''Server does not support Hijacker'' []], None)
                    | Some (Some err) \<Rightarrow>
                        ([HijackConn, SessionError ''Hijack: %s'' [Error err]], None)
                    | Some None \<Rightarrow>
                        (case Dial w ''tcp'' (Addr e) of
                           Some err \<Rightarrow>
                             ([HijackConn, DialBackend ''tcp'' (Addr e),
                               SessionError ''Dial: %s'' [Error err], ConnClose], None)
                         | None \<Rightarrow>
                             (case Certs_Get w host of
                                Some err \<Rightarrow>
                                  ([HijackConn, DialBackend ''tcp'' (Addr e),
                                    ConnWrite ok_200, CertsGet host,
                                    SessionError ''CertPool.Get: %s'' [Error err],
                                    RconnClose, ConnClose], None)
                              | None \<Rightarrow>
                                  (case Handshake w of
                                     Some err \<Rightarrow>
                                       ([HijackConn, DialBackend ''tcp'' (Addr e),
                                         ConnWrite ok_200, CertsGet host, TLSServer host,
                                         TLSHandshake,
                                         SessionError ''Handshake: %s'' [Error err],
                                         SconnClose, RconnClose, ConnClose], None)
                                   | None \<Rightarrow>
                                       ([HijackConn, DialBackend ''tcp'' (Addr e),
                                         ConnWrite ok_200, CertsGet host, TLSServer host,
                                         TLSHandshake], Some host)))))))"

subsection \<open>Connect: the relay\<close>

text \<open>\<open>strconv.FormatInt(i, 10)\<close>: the decimal numeral of \<open>i\<close>, with a minus sign
  when \<open>i\<close> is negative.\<close>

fun digits :: "nat \<Rightarrow> string" where
  "digits n =
     (if n < 10 then [''0123456789'' ! n]
      else digits (n div 10) @ [''0123456789'' ! (n mod 10)])"

declare digits.simps [simp del]

definition FormatInt10 :: "int \<Rightarrow> string" where
  "FormatInt10 i = (if i < 0 then CHR ''-'' # digits (nat (- i)) else digits (nat i))"

text \<open>
  What the upstream loop does to a request \<open>creq\<close> it has read, whose URL is \<open>u\<close>:
  \<^verbatim>\<open>creq.URL, err = url.Parse("https://" + host + creq.URL.String())\<close> and
  \<^verbatim>\<open>creq.Header.Set("Mallory-Session", strconv.FormatInt(s.ID, 10))\<close>.
  The error of \<open>url.Parse\<close> is assigned to \<open>err\<close> and not looked at before
  \<open>WriteProxy\<close> assigns \<open>err\<close> again.
\<close>

definition rewrite :: "world \<Rightarrow> string \<Rightarrow> Session \<Rightarrow> request \<Rightarrow> url \<Rightarrow> request" where
  "rewrite w host s creq u =
     creq\<lparr>req_URL :=
              (case url_Parse w (''https://'' @ host @ url_String w u) of
                 Inl err \<Rightarrow> None
               | Inr u' \<Rightarrow> Some u'),
           req_Header := (req_Header creq)(''Mallory-Session'' \<mapsto> [FormatInt10 (ID s)])\<rparr>"

text \<open>
  The two loops run concurrently: the upstream loop in a goroutine of its own, the
  downstream loop in the goroutine of \<open>Connect\<close>. Each has a program point.
  \<^item> Upstream: about to call \<open>http.ReadRequest\<close>; about to call \<open>WriteProxy\<close> on the
    rewritten request; about to send it on the channel; returned; stopped by a panic.
  \<^item> Downstream: about to receive from the channel; about to call \<open>http.ReadResponse\<close>
    for the request received; about to write the response to the client; out of the
    loop; returned from \<open>Connect\<close>.
\<close>

datatype upc = U_Read | U_Write request | U_Send request | U_Done | U_Panicked

datatype dpc = D_Recv | D_Read request | D_Write response | D_Exit | D_Returned

text \<open>
  The state of a tunnel: the two program points, the channel \<open>rch\<close> (its buffer, first
  sent first, and whether it is closed), the results still to come of the calls on the
  connections, the responses whose \<open>Body.Close\<close> is deferred (last deferred first), and
  the trace so far.
\<close>

record tunnel =
  up :: upc
  down :: dpc
  chan :: "request list"
  chan_closed :: bool
  sconn_in :: "(error + request) list"
  rconn_out :: "error option list"
  rconn_in :: "(error + response) list"
  sconn_out :: "error option list"
  bodies :: "response list"
  trace :: "event list"

text \<open>
  One step of the upstream goroutine, up to its next blocking call; \<open>None\<close> when it
  cannot move. The channel has capacity 8: a send blocks while the buffer holds 8
  requests. \<open>defer close(rch)\<close> runs when the goroutine leaves the loop, also on a
  panic. \<open>creq.URL.String()\<close> on a request without URL is a nil dereference, and a panic
  in a goroutine, in the code or inside \<open>WriteProxy\<close>, stops the process.
\<close>

definition step_up :: "world \<Rightarrow> string \<Rightarrow> Session \<Rightarrow> tunnel \<Rightarrow> tunnel option" where
  "step_up w host s t =
     (case up t of
        U_Read \<Rightarrow>
          (case sconn_in t of
             [] \<Rightarrow> None
           | Inl err # rest \<Rightarrow>
               Some (t\<lparr>up := U_Done, chan_closed := True, sconn_in := rest,
                       trace := trace t @ [ReadRequest (Inl err)] @
                         (if err \<noteq> EOF then [SessionError ''ReadRequest: %s'' [Error err]]
                          else []) @
                         [ChanClose]\<rparr>)
           | Inr creq # rest \<Rightarrow>
               (case req_URL creq of
                  None \<Rightarrow>
                    Some (t\<lparr>up := U_Panicked, chan_closed := True, sconn_in := rest,
                            trace := trace t @ [ReadRequest (Inr creq), ChanClose, Panic]\<rparr>)
                | Some u \<Rightarrow>
                    Some (t\<lparr>up := U_Write (rewrite w host s creq u), sconn_in := rest,
                            trace := trace t @ [ReadRequest (Inr creq)]\<rparr>)))
      | U_Write creq \<Rightarrow>
          (case rconn_out t of
             [] \<Rightarrow>
               if WriteProxy_panics w creq
               then Some (t\<lparr>up := U_Panicked, chan_closed := True,
                           trace := trace t @ [ChanClose, Panic]\<rparr>)
               else None
           | Some err # rest \<Rightarrow>
               Some (t\<lparr>up := U_Done, chan_closed := True, rconn_out := rest,
                       trace := trace t @
                         [WriteProxy creq (Some err),
                          SessionError ''WriteProxy: %s'' [Error err], ChanClose]\<rparr>)
           | None # rest \<Rightarrow>
               Some (t\<lparr>up := U_Send creq, rconn_out := rest,
                       trace := trace t @ [WriteProxy creq None]\<rparr>))
      | U_Send creq \<Rightarrow>
          (if length (chan t) < 8
           then Some (if req_Close creq
                      then t\<lparr>up := U_Done, chan := chan t @ [creq], chan_closed := True,
                             trace := trace t @ [ChanSend creq, ChanClose]\<rparr>
                      else t\<lparr>up := U_Read, chan := chan t @ [creq],
                             trace := trace t @ [ChanSend creq]\<rparr>)
           else None)
      | U_Done \<Rightarrow> None
      | U_Panicked \<Rightarrow> None)"

text \<open>
  One step of the downstream loop. A receive takes the oldest request of the buffer; on
  an empty buffer it blocks, or reports the closure when the channel is closed. Leaving
  \<open>Connect\<close> logs the duration and runs the deferred closes.
\<close>

definition step_down :: "world \<Rightarrow> tunnel \<Rightarrow> tunnel option" where
  "step_down w t =
     (if up t = U_Panicked then None
      else
        case down t of
          D_Recv \<Rightarrow>
            (case chan t of
               creq # rest \<Rightarrow>
                 Some (t\<lparr>down := D_Read creq, chan := rest,
                         trace := trace t @ [ChanRecv (Some creq)]\<rparr>)
             | [] \<Rightarrow>
                 if chan_closed t
                 then Some (t\<lparr>down := D_Exit, trace := trace t @ [ChanRecv None]\<rparr>)
                 else None)
        | D_Read creq \<Rightarrow>
            (case rconn_in t of
               [] \<Rightarrow> None
             | Inl err # rest \<Rightarrow>
                 Some (t\<lparr>down := D_Exit, rconn_in := rest,
                         trace := trace t @
                           [ReadResponse creq (Inl err),
                            SessionError ''ReadResponse: %s'' [Error err]]\<rparr>)
             | Inr cresp # rest \<Rightarrow>
                 Some (t\<lparr>down := D_Write cresp, rconn_in := rest,
                         bodies := cresp # bodies t,
                         trace := trace t @ [ReadResponse creq (Inr cresp)]\<rparr>))
        | D_Write cresp \<Rightarrow>
            (case sconn_out t of
               [] \<Rightarrow> None
             | Some err # rest \<Rightarrow>
                 Some (t\<lparr>down := D_Exit, sconn_out := rest,
                         trace := trace t @ [RespWrite cresp (Some err)] @
                           (if err \<noteq> EOF then [SessionError ''Write: %s'' [Error err]]
                            else [])\<rparr>)
             | None # rest \<Rightarrow>
                 Some (t\<lparr>down := (if resp_Close cresp then D_Exit else D_Recv),
                         sconn_out := rest,
                         trace := trace t @ [RespWrite cresp None]\<rparr>))
        | D_Exit \<Rightarrow>
            Some (t\<lparr>down := D_Returned,
                    trace := trace t @ [SessionInfo ''CLOSE %s'' [Since w]] @
                      map BodyClose (bodies t) @ [SconnClose, RconnClose, ConnClose]\<rparr>)
        | D_Returned \<Rightarrow> None)"

text \<open>
  The scheduler is a list of turns. A goroutine that cannot move on its turn stays where
  it is. Every finite run of the tunnel is \<open>run\<close> of some list of turns.
\<close>

datatype thread = Up | Down

definition step :: "world \<Rightarrow> string \<Rightarrow> Session \<Rightarrow> thread \<Rightarrow> tunnel \<Rightarrow> tunnel option" where
  "step w host s th t = (case th of Up \<Rightarrow> step_up w host s t | Down \<Rightarrow> step_down w t)"

fun run :: "world \<Rightarrow> string \<Rightarrow> Session \<Rightarrow> thread list \<Rightarrow> tunnel \<Rightarrow> tunnel" where
  "run w host s [] t = t"
| "run w host s (th # ths) t =
     (case step w host s th t of
        None \<Rightarrow> run w host s ths t
      | Some t' \<Rightarrow> run w host s ths t')"

definition relay_init :: "world \<Rightarrow> event list \<Rightarrow> tunnel" where
  "relay_init w tr =
     \<lparr>up = U_Read, down = D_Recv, chan = [], chan_closed = False,
      sconn_in = ReadRequest_sconn w, rconn_out = WriteProxy_rconn w,
      rconn_in = ReadResponse_rconn w, sconn_out = Write_sconn w,
      bodies = [], trace = tr\<rparr>"

text \<open>\<open>EngineGAE.Connect\<close>: the trace of the run under a list of turns.\<close>

definition Connect :: "world \<Rightarrow> Env \<Rightarrow> Session \<Rightarrow> thread list \<Rightarrow> event list" where
  "Connect w e s sched =
     (case Connect_setup w e s of
        (tr, None) \<Rightarrow> tr
      | (tr, Some host) \<Rightarrow> trace (run w host s sched (relay_init w tr)))"

subsection \<open>A new buffered reader for every call\<close>

text \<open>
  Both loops wrap the connection in a new \<open>bufio.Reader\<close> in every iteration:
  \<^verbatim>\<open>http.ReadRequest(bufio.NewReader(sconn))\<close> and
  \<^verbatim>\<open>http.ReadResponse(bufio.NewReader(rconn), creq)\<close>. A connection hands over its
  bytes in segments, one for each \<open>Read\<close>. A new reader has an empty buffer; the call
  makes it take the next segment of the connection into the buffer, parses the first
  message there and returns it. The reader is dropped at the end of the iteration, and the
  messages its buffer still holds are lost with it. \<open>fresh_reader_results\<close> gives
  the results of the successive calls on a connection that delivers the given segments,
  each segment a list of whole messages; after the last segment a call blocks.
\<close>

fun fresh_reader_results :: "'a list list \<Rightarrow> (error + 'a) list" where
  "fresh_reader_results [] = []"
| "fresh_reader_results ([] # segs) = fresh_reader_results segs"
| "fresh_reader_results ((m # ms) # segs) = Inr m # fresh_reader_results segs"

subsection \<open>Reading a trace\<close>

text \<open>
  What a trace says about the relay, each in the order of the events:
  \<^item> \<open>sent_upstream\<close>: the requests that \<open>WriteProxy\<close> wrote to the backend without error;
  \<^item> \<open>received\<close>: the requests that the downstream loop took from the channel;
  \<^item> \<open>answered\<close>: the requests for which the downstream loop called
    \<open>http.ReadResponse\<close>;
  \<^item> \<open>down_events\<close>: the reads of a response from the backend and the writes of a
    response to the client.
\<close>

fun sent_of :: "event \<Rightarrow> request list" where
  "sent_of (WriteProxy r None) = [r]"
| "sent_of e = []"

definition sent_upstream :: "event list \<Rightarrow> request list" where
  "sent_upstream tr = concat (map sent_of tr)"

fun received_of :: "event \<Rightarrow> request list" where
  "received_of (ChanRecv (Some r)) = [r]"
| "received_of e = []"

definition received :: "event list \<Rightarrow> request list" where
  "received tr = concat (map received_of tr)"

fun answered_of :: "event \<Rightarrow> request list" where
  "answered_of (ReadResponse r x) = [r]"
| "answered_of e = []"

definition answered :: "event list \<Rightarrow> request list" where
  "answered tr = concat (map answered_of tr)"

fun down_of :: "event \<Rightarrow> event list" where
  "down_of (ReadResponse r x) = [ReadResponse r x]"
| "down_of (RespWrite p y) = [RespWrite p y]"
| "down_of e = []"

definition down_events :: "event list \<Rightarrow> event list" where
  "down_events tr = concat (map down_of tr)"

text \<open>
  \<open>in_turn\<close>: every response that was read is written to the client before the next
  one is read, and every write is of the response read just before it. The last read may
  have failed, or its response may not be written yet. \<open>whole\<close> is the same with
  nothing left over.
\<close>

fun in_turn :: "event list \<Rightarrow> bool" where
  "in_turn [] = True"
| "in_turn [ReadResponse r x] = True"
| "in_turn (ReadResponse r (Inr p) # RespWrite p' y # es) = (p' = p \<and> in_turn es)"
| "in_turn es = False"

fun whole :: "event list \<Rightarrow> bool" where
  "whole [] = True"
| "whole (ReadResponse r (Inr p) # RespWrite p' y # es) = (p' = p \<and> whole es)"
| "whole es = False"

text \<open>The request that a loop holds at its program point and that is on its way
  between the trace and the channel.\<close>

fun pending_down :: "dpc \<Rightarrow> request list" where
  "pending_down (D_Read r) = [r]"
| "pending_down d = []"

fun pending_up :: "upc \<Rightarrow> request list" where
  "pending_up (U_Send r) = [r]"
| "pending_up u = []"

fun turn_inv :: "dpc \<Rightarrow> event list \<Rightarrow> bool" where
  "turn_inv (D_Write p) ds = (\<exists>ds' r. ds = ds' @ [ReadResponse r (Inr p)] \<and> whole ds')"
| "turn_inv D_Exit ds = in_turn ds"
| "turn_inv D_Returned ds = in_turn ds"
| "turn_inv d ds = whole ds"

text \<open>The invariant of the relay: the channel holds at most 8 requests; the requests
  sent upstream are those received downstream, then those in the channel, then the one
  the upstream loop is about to send; and the downstream events are in turn.\<close>

definition relay_inv :: "tunnel \<Rightarrow> bool" where
  "relay_inv t \<longleftrightarrow>
     length (chan t) \<le> 8 \<and>
     sent_upstream (trace t) = received (trace t) @ chan t @ pending_up (up t) \<and>
     received (trace t) = answered (trace t) @ pending_down (down t) \<and>
     turn_inv (down t) (down_events (trace t))"

text \<open>The events of the relay, as against those of the part of \<open>Connect\<close> before
  it: the hijack, the dial, the write on the raw connection, the lookup of the
  certificate and the handshake.\<close>

fun relay_event :: "event \<Rightarrow> bool" where
  "relay_event HijackConn = False"
| "relay_event (DialBackend n a) = False"
| "relay_event (ConnWrite b) = False"
| "relay_event (CertsGet h) = False"
| "relay_event (TLSServer h) = False"
| "relay_event TLSHandshake = False"
| "relay_event e = True"

text \<open>
  The events of the upstream loop that concern a request on its way to the backend: the
  reads of a request from the client and the calls of \<open>WriteProxy\<close> on the backend
  connection.
\<close>

fun up_of :: "event \<Rightarrow> event list" where
  "up_of (ReadRequest x) = [ReadRequest x]"
| "up_of (WriteProxy r x) = [WriteProxy r x]"
| "up_of e = []"

definition up_events :: "event list \<Rightarrow> event list" where
  "up_events tr = concat (map up_of tr)"

text \<open>
  \<open>rewritten_from w host s creq r\<close>: \<open>r\<close> is the request \<open>creq\<close> read from the client
  with its URL replaced by what \<open>url.Parse\<close> returns for
  \<open>"https://" + host + creq.URL.String()\<close> (nil when the parse fails) and its header
  \<open>Mallory-Session\<close> set to the one value \<open>strconv.FormatInt(s.ID, 10)\<close>; method,
  \<open>Close\<close> and the other headers are those of \<open>creq\<close>.
\<close>

definition rewritten_from :: "world \<Rightarrow> string \<Rightarrow> Session \<Rightarrow> request \<Rightarrow> request \<Rightarrow> bool" where
  "rewritten_from w host s creq r \<longleftrightarrow>
     (case req_URL creq of
        None \<Rightarrow> False
      | Some u \<Rightarrow>
          req_URL r =
            (case url_Parse w (''https://'' @ host @ url_String w u) of
               Inl err \<Rightarrow> None
             | Inr u' \<Rightarrow> Some u') \<and>
          req_Header r = (req_Header creq)(''Mallory-Session'' \<mapsto> [FormatInt10 (ID s)]) \<and>
          req_Method r = req_Method creq \<and> req_Close r = req_Close creq)"

text \<open>
  \<open>forwarded_in_turn\<close>: every call of \<open>WriteProxy\<close> follows the read of a request
  and writes that very request, rewritten, before the next request is read. The last
  read may have failed, or its request may not be written yet. \<open>whole_up\<close> is the same
  with nothing left over, and \<open>up_inv\<close> says which of the two holds at a program point
  of the upstream loop.
\<close>

fun forwarded_in_turn :: "world \<Rightarrow> string \<Rightarrow> Session \<Rightarrow> event list \<Rightarrow> bool" where
  "forwarded_in_turn w host s [] = True"
| "forwarded_in_turn w host s [ReadRequest x] = True"
| "forwarded_in_turn w host s (ReadRequest (Inr creq) # WriteProxy r x # es) =
     (rewritten_from w host s creq r \<and> forwarded_in_turn w host s es)"
| "forwarded_in_turn w host s es = False"

fun whole_up :: "world \<Rightarrow> string \<Rightarrow> Session \<Rightarrow> event list \<Rightarrow> bool" where
  "whole_up w host s [] = True"
| "whole_up w host s (ReadRequest (Inr creq) # WriteProxy r x # es) =
     (rewritten_from w host s creq r \<and> whole_up w host s es)"
| "whole_up w host s es = False"

fun up_inv :: "world \<Rightarrow> string \<Rightarrow> Session \<Rightarrow> upc \<Rightarrow> event list \<Rightarrow> bool" where
  "up_inv w host s (U_Write r) us =
     (\<exists>us' creq. us = us' @ [ReadRequest (Inr creq)] \<and> whole_up w host s us' \<and>
        rewritten_from w host s creq r)"
| "up_inv w host s U_Done us = forwarded_in_turn w host s us"
| "up_inv w host s U_Panicked us = forwarded_in_turn w host s us"
| "up_inv w host s u us = whole_up w host s us"

text \<open>The number that a string of decimal digits denotes; used to say that
  \<open>FormatInt10\<close> writes decimal numerals.\<close>

definition read_decimal :: "string \<Rightarrow> nat" where
  "read_decimal ds = foldl (\<lambda>a c. 10 * a + (of_char c - 48)) 0 ds"

subsection \<open>Concrete sessions and environments\<close>

text \<open>Inputs on which the theorems below are run: a CONNECT to
  \<open>secure.example.com\<close>, requests inside the tunnel, and an environment in which every
  call succeeds. \<open>ex_SplitHostPort\<close> and \<open>ex_Parse\<close> are tables of what the library
  returns on the strings used.\<close>

definition ex_host_url :: "string \<Rightarrow> url" where
  "ex_host_url h = \<lparr>url_Scheme = '''', url_Host = h, url_Path = '''', url_RawQuery = ''''\<rparr>"

definition ex_path_url :: "string \<Rightarrow> url" where
  "ex_path_url p = \<lparr>url_Scheme = '''', url_Host = '''', url_Path = p, url_RawQuery = ''''\<rparr>"

definition ex_request :: "string \<Rightarrow> url \<Rightarrow> bool \<Rightarrow> request" where
  "ex_request m u c = \<lparr>req_Method = m, req_URL = Some u, req_Header = Map.empty, req_Close = c\<rparr>"

definition ex_response :: "string \<Rightarrow> bool \<Rightarrow> response" where
  "ex_response b c =
     \<lparr>resp_Status = ''200 OK'', resp_StatusCode = 200, resp_Header = Map.empty,
      resp_Body = b, resp_Close = c\<rparr>"

definition ex_SplitHostPort :: "string \<Rightarrow> error + string \<times> string" where
  "ex_SplitHostPort hp =
     (if hp = ''secure.example.com:443'' then Inr (''secure.example.com'', ''443'')
      else if hp = ''secure.example.com:80'' then Inr (''secure.example.com'', ''80'')
      else if hp = ''[::ffff]:443'' then Inr (''::ffff'', ''443'')
      else Inl (Failure ''missing port in address''))"

definition ex_Parse :: "string \<Rightarrow> error + url" where
  "ex_Parse raw =
     (if take 26 raw = ''https://secure.example.com''
      then Inr \<lparr>url_Scheme = ''https'', url_Host = ''secure.example.com'',
                url_Path = drop 26 raw, url_RawQuery = ''''\<rparr>
      else Inl (Failure ''invalid port after host''))"

definition ex_world :: world where
  "ex_world =
     \<lparr>SplitHostPort = ex_SplitHostPort, Hijack = Some None, Dial = (\<lambda>n a. None),
      Certs_Get = (\<lambda>h. None), Handshake = None, url_Parse = ex_Parse,
      url_String = url_Path, WriteProxy_buf = (\<lambda>r. Inr ''GET http://example.com/ HTTP/1.1''),
      Post = (\<lambda>u c b. Inr (ex_response ''HTTP/1.1 200 OK'' False)),
      ReadResponse_body = (\<lambda>p r. Inr (ex_response ''hello'' False)),
      io_Copy = (\<lambda>p. None), Since = ''1ms'',
      ReadRequest_sconn = [], WriteProxy_rconn = [], WriteProxy_panics = (\<lambda>r. False),
      ReadResponse_rconn = [], Write_sconn = []\<rparr>"

definition ex_env :: Env where
  "ex_env = \<lparr>AppSpot = ''mallory'', Addr = ''127.0.0.1:1315''\<rparr>"

definition ex_session :: "request \<Rightarrow> Session" where
  "ex_session r = \<lparr>ID = 42, Request = r\<rparr>"

definition ex_connect :: Session where
  "ex_connect = ex_session (ex_request ''CONNECT'' (ex_host_url ''secure.example.com:443'') False)"

definition ex_connect80 :: Session where
  "ex_connect80 = ex_session (ex_request ''CONNECT'' (ex_host_url ''secure.example.com:80'') False)"

definition ex_plain :: Session where
  "ex_plain =
     ex_session (ex_request ''GET''
       \<lparr>url_Scheme = ''http'', url_Host = ''example.com'', url_Path = ''/'',
        url_RawQuery = ''''\<rparr> False)"

text \<open>A tunnel whose client pipelines nine requests while the backend answers none:
  \<open>ex_full\<close> is the tunnel after the upstream loop has gone round eight times with the
  downstream loop not yet scheduled, \<open>ex_blocked\<close> the same two steps later.\<close>

definition ex_tunnel_request :: "string \<Rightarrow> request" where
  "ex_tunnel_request p = ex_request ''GET'' (ex_path_url p) False"

definition ex_setup_trace :: "event list" where
  "ex_setup_trace =
     [HijackConn, DialBackend ''tcp'' ''127.0.0.1:1315'', ConnWrite ok_200,
      CertsGet ''secure.example.com'', TLSServer ''secure.example.com'', TLSHandshake]"

definition ex_world9 :: world where
  "ex_world9 =
     ex_world\<lparr>ReadRequest_sconn :=
                [Inr (ex_tunnel_request ''/1''), Inr (ex_tunnel_request ''/2''),
                 Inr (ex_tunnel_request ''/3''), Inr (ex_tunnel_request ''/4''),
                 Inr (ex_tunnel_request ''/5''), Inr (ex_tunnel_request ''/6''),
                 Inr (ex_tunnel_request ''/7''), Inr (ex_tunnel_request ''/8''),
                 Inr (ex_tunnel_request ''/9'')],
              WriteProxy_rconn := [None, None, None, None, None, None, None, None, None]\<rparr>"

definition ex_sched24 :: "thread list" where
  "ex_sched24 = [Up, Up, Up, Up, Up, Up, Up, Up, Up, Up, Up, Up,
                 Up, Up, Up, Up, Up, Up, Up, Up, Up, Up, Up, Up]"

definition ex_full :: tunnel where
  "ex_full = run ex_world9 ''secure.example.com'' ex_connect ex_sched24
     (relay_init ex_world9 ex_setup_trace)"

definition ex_blocked :: tunnel where
  "ex_blocked = run ex_world9 ''secure.example.com'' ex_connect (ex_sched24 @ [Up, Up])
     (relay_init ex_world9 ex_setup_trace)"

text \<open>A CONNECT to the IPv6 address \<open>::ffff\<close>, for which the rewritten URL
  \<open>https://::ffff/\<close> does not parse (\<open>:ffff\<close> is read as a port). What
  \<open>WriteProxy\<close> makes of a request without URL is the library's matter; here it
  returns an error. Then the environment of the debug setting.\<close>

definition ex_connect_v6 :: Session where
  "ex_connect_v6 = ex_session (ex_request ''CONNECT'' (ex_host_url ''[::ffff]:443'') False)"

definition ex_world_v6 :: world where
  "ex_world_v6 =
     ex_world\<lparr>ReadRequest_sconn := [Inr (ex_tunnel_request ''/'')],
              WriteProxy_rconn := [Some (Failure ''http: nil Request.URL'')]\<rparr>"

definition ex_debug_env :: Env where
  "ex_debug_env = \<lparr>AppSpot = ''debug'', Addr = ''127.0.0.1:1315''\<rparr>"

text \<open>The first request of that tunnel as it goes to the backend, written out, and
  the request for a path as the upstream loop rewrites it.\<close>

definition ex_rewritten1 :: request where
  "ex_rewritten1 =
     \<lparr>req_Method = ''GET'',
      req_URL = Some \<lparr>url_Scheme = ''https'', url_Host = ''secure.example.com'',
                      url_Path = ''/1'', url_RawQuery = ''''\<rparr>,
      req_Header = [''Mallory-Session'' \<mapsto> [''42'']], req_Close = False\<rparr>"

definition ex_forwarded_path :: "string \<Rightarrow> request" where
  "ex_forwarded_path p =
     rewrite ex_world ''secure.example.com'' ex_connect (ex_tunnel_request p) (ex_path_url p)"

text \<open>
  A tunnel with three requests and three responses, given by the segments in which
  the client's requests and the backend's responses reach the proxy. The backend
  answers the requests in their order: \<open>one\<close> is its answer to \<open>/1\<close>, \<open>two\<close> to \<open>/2\<close>
  and \<open>three\<close> to \<open>/3\<close>. Under \<open>ex_sched3\<close> the upstream loop runs first.
\<close>

definition ex_world_segments :: "request list list \<Rightarrow> response list list \<Rightarrow> world" where
  "ex_world_segments reqs resps =
     ex_world\<lparr>ReadRequest_sconn := fresh_reader_results reqs,
              WriteProxy_rconn := [None, None, None],
              ReadResponse_rconn := fresh_reader_results resps,
              Write_sconn := [None, None, None]\<rparr>"

definition ex_sched3 :: "thread list" where
  "ex_sched3 = [Up, Up, Up, Up, Up, Up, Up, Up, Up,
                Down, Down, Down, Down, Down, Down, Down, Down, Down]"

text \<open>A tunnel to \<open>::ffff\<close> in which \<open>WriteProxy\<close> panics on a request without
  URL, as \<open>net/http\<close> does for a request that has a \<open>Host\<close> header.\<close>

definition ex_setup_trace_v6 :: "event list" where
  "ex_setup_trace_v6 =
     [HijackConn, DialBackend ''tcp'' ''127.0.0.1:1315'', ConnWrite ok_200,
      CertsGet ''::ffff'', TLSServer ''::ffff'', TLSHandshake]"

definition ex_world_nilurl :: world where
  "ex_world_nilurl =
     ex_world\<lparr>ReadRequest_sconn := [Inr (ex_tunnel_request ''/'')],
              WriteProxy_panics := (\<lambda>r. req_URL r = None)\<rparr>"

text \<open>A plain request whose embedded response breaks off in its body: \<open>io.Copy\<close>
  fails.\<close>

definition ex_world_copyfail :: world where
  "ex_world_copyfail = ex_world\<lparr>io_Copy := (\<lambda>p. Some (Failure ''unexpected EOF''))\<rparr>"

text \<open>
  Tunnels with one request, after which the client closes: \<open>ex_world_one\<close> takes the
  results of \<open>http.ReadResponse\<close> and of the writes to the client. \<open>ex_writing_eof\<close>
  is such a tunnel about to write its response to a client that has closed.
\<close>

definition ex_world_one :: "(error + response) list \<Rightarrow> error option list \<Rightarrow> world" where
  "ex_world_one resps writes =
     ex_world\<lparr>ReadRequest_sconn := [Inr (ex_tunnel_request ''/''), Inl EOF],
              WriteProxy_rconn := [None],
              ReadResponse_rconn := resps, Write_sconn := writes\<rparr>"

definition ex_sched_one :: "thread list" where
  "ex_sched_one = [Up, Up, Up, Up, Down, Down, Down, Down, Down]"

definition ex_writing_eof :: tunnel where
  "ex_writing_eof =
     run (ex_world_one [Inr (ex_response ''hello'' False)] [Some EOF]) ''secure.example.com''
       ex_connect [Up, Up, Up, Up, Down, Down]
       (relay_init (ex_world_one [Inr (ex_response ''hello'' False)] [Some EOF]) ex_setup_trace)"

section \<open>Lemmas\<close>

subsection \<open>The invariant of the relay\<close>

lemma sent_upstream_append [simp]:
  "sent_upstream (xs @ ys) = sent_upstream xs @ sent_upstream ys"
  by (simp add: sent_upstream_def)

lemma received_append [simp]: "received (xs @ ys) = received xs @ received ys"
  by (simp add: received_def)

lemma answered_append [simp]: "answered (xs @ ys) = answered xs @ answered ys"
  by (simp add: answered_def)

lemma down_events_append [simp]: "down_events (xs @ ys) = down_events xs @ down_events ys"
  by (simp add: down_events_def)

lemma sent_upstream_simps [simp]:
  "sent_upstream [] = []" "sent_upstream (e # es) = sent_of e @ sent_upstream es"
  by (simp_all add: sent_upstream_def)

lemma received_simps [simp]:
  "received [] = []" "received (e # es) = received_of e @ received es"
  by (simp_all add: received_def)

lemma answered_simps [simp]:
  "answered [] = []" "answered (e # es) = answered_of e @ answered es"
  by (simp_all add: answered_def)

lemma down_events_simps [simp]:
  "down_events [] = []" "down_events (e # es) = down_of e @ down_events es"
  by (simp_all add: down_events_def)

lemma no_relay_BodyClose [simp]:
  "sent_upstream (map BodyClose ps) = []" "received (map BodyClose ps) = []"
  "answered (map BodyClose ps) = []" "down_events (map BodyClose ps) = []"
  by (induction ps) simp_all

lemma whole_in_turn: "whole ds \<Longrightarrow> in_turn ds"
  by (induction ds rule: whole.induct) simp_all

lemma whole_snoc_read: "whole ds \<Longrightarrow> in_turn (ds @ [ReadResponse r x])"
  by (induction ds rule: whole.induct) simp_all

lemma whole_snoc_pair: "whole ds \<Longrightarrow> whole (ds @ [ReadResponse r (Inr p), RespWrite p y])"
  by (induction ds rule: whole.induct) simp_all

lemma whole_snoc_pair_turn:
  "whole ds \<Longrightarrow> in_turn (ds @ [ReadResponse r (Inr p), RespWrite p y])"
  by (simp add: whole_snoc_pair whole_in_turn)

lemma step_up_inv:
  assumes "relay_inv t" and "step_up w host s t = Some t'"
  shows "relay_inv t'"
  using assms
  by (auto simp add: relay_inv_def step_up_def
      split: upc.splits list.splits sum.splits option.splits if_splits)

lemma step_down_inv:
  assumes "relay_inv t" and "step_down w t = Some t'"
  shows "relay_inv t'"
  using assms
  by (auto simp add: relay_inv_def step_down_def whole_in_turn whole_snoc_read
      whole_snoc_pair whole_snoc_pair_turn
      split: dpc.splits list.splits sum.splits option.splits if_splits)



lemma step_inv:
  assumes "relay_inv t" and "step w host s th t = Some t'"
  shows "relay_inv t'"
proof (cases th)
  case Up
  with assms show ?thesis by (simp add: step_def) (rule step_up_inv)
next
  case Down
  with assms show ?thesis by (simp add: step_def) (rule step_down_inv)
qed

lemma run_inv: "relay_inv t \<Longrightarrow> relay_inv (run w host s sched t)"
proof (induction sched arbitrary: t)
  case Nil
  then show ?case by simp
next
  case (Cons th ths)
  show ?case
  proof (cases "step w host s th t")
    case None
    with Cons show ?thesis by simp
  next
    case (Some t')
    with Cons.prems have "relay_inv t'" by (rule step_inv [rotated -1, rotated])
    with Cons.IH Some show ?thesis by simp
  qed
qed

lemma setup_no_relay:
  assumes "Connect_setup w e s = (tr, r)"
  shows "sent_upstream tr = [] \<and> received tr = [] \<and> answered tr = [] \<and> down_events tr = []"
  using assms
  by (auto simp add: Connect_setup_def Let_def
      split: if_splits option.splits sum.splits prod.splits)

lemma init_inv:
  assumes "sent_upstream tr = []" and "received tr = []" and "answered tr = []"
    and "down_events tr = []"
  shows "relay_inv (relay_init w tr)"
  using assms by (simp add: relay_inv_def relay_init_def)

lemma relay_inv_order:
  assumes "relay_inv t"
  shows "in_turn (down_events (trace t)) \<and> prefix (answered (trace t)) (sent_upstream (trace t))"
proof -
  from assms have "turn_inv (down t) (down_events (trace t))"
    by (simp add: relay_inv_def)
  then have "in_turn (down_events (trace t))"
    by (cases "down t") (auto simp add: whole_in_turn whole_snoc_read)
  moreover from assms have "prefix (answered (trace t)) (sent_upstream (trace t))"
    by (simp add: relay_inv_def)
  ultimately show ?thesis by simp
qed

text \<open>The calls of the downstream loop are in turn, and they are made for the requests
  in the order in which these were written upstream.\<close>

lemma calls_in_request_order:
  "in_turn (down_events (Connect w e s sched)) \<and>
   prefix (answered (Connect w e s sched)) (sent_upstream (Connect w e s sched))"
proof (cases "Connect_setup w e s")
  case (Pair tr r)
  then have clean:
    "sent_upstream tr = [] \<and> received tr = [] \<and> answered tr = [] \<and> down_events tr = []"
    by (rule setup_no_relay)
  show ?thesis
  proof (cases r)
    case None
    with Pair clean show ?thesis by (simp add: Connect_def)
  next
    case (Some host)
    from clean have "relay_inv (relay_init w tr)" by (simp add: init_inv)
    then have "relay_inv (run w host s sched (relay_init w tr))" by (rule run_inv)
    then have "in_turn (down_events (trace (run w host s sched (relay_init w tr)))) \<and>
      prefix (answered (trace (run w host s sched (relay_init w tr))))
        (sent_upstream (trace (run w host s sched (relay_init w tr))))"
      by (rule relay_inv_order)
    with Pair Some show ?thesis by (simp add: Connect_def)
  qed
qed

subsection \<open>The trace grows by events of the relay\<close>

lemma step_up_trace:
  assumes "step_up w host s t = Some t'"
  shows "\<exists>es. trace t' = trace t @ es \<and> list_all relay_event es"
  using assms
  by (auto simp add: step_up_def split: upc.splits list.splits sum.splits option.splits if_splits)

lemma step_down_trace:
  assumes "step_down w t = Some t'"
  shows "\<exists>es. trace t' = trace t @ es \<and> list_all relay_event es"
  using assms
  by (auto simp add: step_down_def list_all_iff
      split: dpc.splits list.splits sum.splits option.splits if_splits)

lemma run_trace: "\<exists>es. trace (run w host s sched t) = trace t @ es \<and> list_all relay_event es"
proof (induction sched arbitrary: t)
  case Nil
  then show ?case by simp
next
  case (Cons th ths)
  show ?case
  proof (cases "step w host s th t")
    case None
    with Cons show ?thesis by simp
  next
    case (Some t')
    then obtain es where es: "trace t' = trace t @ es" "list_all relay_event es"
      by (cases th) (auto simp add: step_def dest: step_up_trace step_down_trace)
    from Cons.IH [of t'] obtain es' where
      es': "trace (run w host s ths t') = trace t' @ es'" "list_all relay_event es'"
      by blast
    from es es' Some show ?thesis by simp
  qed
qed

lemma relay_event_absent:
  assumes "list_all relay_event es"
  shows "(\<forall>b. ConnWrite b \<notin> set es) \<and> (\<forall>n a. DialBackend n a \<notin> set es) \<and>
         (\<forall>h. CertsGet h \<notin> set es)"
  using assms by (auto simp add: list_all_iff)

subsection \<open>Rules for running the examples\<close>

lemma rewrite_simps [simp]:
  "req_Close (rewrite w host s creq u) = req_Close creq"
  "req_Method (rewrite w host s creq u) = req_Method creq"
  "req_Header (rewrite w host s creq u) = (req_Header creq)(''Mallory-Session'' \<mapsto> [FormatInt10 (ID s)])"
  "req_URL (rewrite w host s creq u) =
     (case url_Parse w (''https://'' @ host @ url_String w u) of
        Inl err \<Rightarrow> None
      | Inr u' \<Rightarrow> Some u')"
  by (simp_all add: rewrite_def)

lemma ex_world9_simps [simp]:
  "SplitHostPort ex_world9 = ex_SplitHostPort" "Hijack ex_world9 = Some None"
  "Dial ex_world9 n a = None" "Certs_Get ex_world9 h = None" "Handshake ex_world9 = None"
  "ReadRequest_sconn ex_world9 =
     [Inr (ex_tunnel_request ''/1''), Inr (ex_tunnel_request ''/2''),
      Inr (ex_tunnel_request ''/3''), Inr (ex_tunnel_request ''/4''),
      Inr (ex_tunnel_request ''/5''), Inr (ex_tunnel_request ''/6''),
      Inr (ex_tunnel_request ''/7''), Inr (ex_tunnel_request ''/8''),
      Inr (ex_tunnel_request ''/9'')]"
  "WriteProxy_rconn ex_world9 = [None, None, None, None, None, None, None, None, None]"
  "ReadResponse_rconn ex_world9 = []" "Write_sconn ex_world9 = []"
  by (simp_all add: ex_world9_def ex_world_def)

lemma ex_tunnel_request_simps [simp]:
  "req_URL (ex_tunnel_request p) = Some (ex_path_url p)"
  "req_Close (ex_tunnel_request p) = False"
  by (simp_all add: ex_tunnel_request_def ex_request_def)

lemma ex_connect_simps [simp]:
  "req_Method (Request ex_connect) = ''CONNECT''"
  "req_URL (Request ex_connect) = Some (ex_host_url ''secure.example.com:443'')"
  "url_Host (ex_host_url h) = h"
  "ex_SplitHostPort ''secure.example.com:443'' = Inr (''secure.example.com'', ''443'')"
  by (simp_all add: ex_connect_def ex_session_def ex_request_def ex_host_url_def ex_SplitHostPort_def)


lemma ex_env_simps [simp]: "Addr ex_env = ''127.0.0.1:1315''" "AppSpot ex_env = ''mallory''"
  by (simp_all add: ex_env_def)

lemma ex_setup9:
  "Connect_setup ex_world9 ex_env ex_connect = (ex_setup_trace, Some ''secure.example.com'')"
  by (simp add: Connect_setup_def ex_setup_trace_def)

lemma relay_inv_count:
  assumes "relay_inv t"
  shows "length (sent_upstream (trace t)) \<le> length (received (trace t)) + 9"
proof -
  have "length (pending_up (up t)) \<le> 1" by (cases "up t") simp_all
  with assms show ?thesis by (simp add: relay_inv_def)
qed

lemma setup_relay_inv:
  assumes "Connect_setup w e s = (tr, r)"
  shows "relay_inv (run w host s sched (relay_init w tr))"
proof -
  from assms have "sent_upstream tr = [] \<and> received tr = [] \<and> answered tr = [] \<and> down_events tr = []"
    by (rule setup_no_relay)
  then have "relay_inv (relay_init w tr)" by (simp add: init_inv)
  then show ?thesis by (rule run_inv)
qed

subsection \<open>The pipelined run\<close>

lemma ex_full_eval:
  "length (chan ex_full) = 8 \<and> received (trace ex_full) = [] \<and> up ex_full = U_Read \<and>
   down ex_full = D_Recv"
  by (simp add: ex_full_def ex_sched24_def relay_init_def step_def step_up_def received_def
      ex_setup_trace_def)

lemma ex_blocked_eval:
  "up ex_blocked =
     U_Send (rewrite ex_world9 ''secure.example.com'' ex_connect (ex_tunnel_request ''/9'')
       (ex_path_url ''/9'')) \<and>
   down ex_blocked = D_Recv \<and> length (chan ex_blocked) = 8"
  by (simp add: ex_blocked_def ex_sched24_def relay_init_def step_def step_up_def)

subsection \<open>Every request written upstream is a rewritten request of the client\<close>

lemma up_events_append [simp]: "up_events (xs @ ys) = up_events xs @ up_events ys"
  by (simp add: up_events_def)

lemma up_events_simps [simp]:
  "up_events [] = []" "up_events (e # es) = up_of e @ up_events es"
  by (simp_all add: up_events_def)

lemma up_events_BodyClose [simp]: "up_events (map BodyClose ps) = []"
  by (induction ps) simp_all

lemma whole_up_turn: "whole_up w host s us \<Longrightarrow> forwarded_in_turn w host s us"
  by (induction w host s us rule: whole_up.induct) simp_all

lemma whole_up_snoc_read:
  "whole_up w host s us \<Longrightarrow> forwarded_in_turn w host s (us @ [ReadRequest x])"
  by (induction w host s us rule: whole_up.induct) simp_all

lemma whole_up_snoc_pair:
  "whole_up w host s us \<Longrightarrow> rewritten_from w host s creq r \<Longrightarrow>
   whole_up w host s (us @ [ReadRequest (Inr creq), WriteProxy r x])"
  by (induction w host s us rule: whole_up.induct) simp_all

lemma rewritten_from_rewrite:
  "req_URL creq = Some u \<Longrightarrow> rewritten_from w host s creq (rewrite w host s creq u)"
  by (simp add: rewritten_from_def)

lemma step_up_up_inv:
  assumes "up_inv w host s (up t) (up_events (trace t))"
    and "step_up w host s t = Some t'"
  shows "up_inv w host s (up t') (up_events (trace t'))"
proof (cases "up t")
  case U_Read
  with assms show ?thesis
    by (auto simp add: step_up_def whole_up_snoc_read rewritten_from_rewrite
        split: list.splits sum.splits option.splits if_splits)
next
  case (U_Write r)
  with assms show ?thesis
    by (auto simp add: step_up_def whole_up_snoc_read whole_up_snoc_pair whole_up_turn
        split: list.splits option.splits if_splits)
next
  case (U_Send r)
  with assms show ?thesis
    by (auto simp add: step_up_def whole_up_turn split: if_splits)
next
  case U_Done
  with assms show ?thesis by (simp add: step_up_def)
next
  case U_Panicked
  with assms show ?thesis by (simp add: step_up_def)
qed

lemma step_down_up_inv:
  assumes "up_inv w host s (up t) (up_events (trace t))"
    and "step_down w t = Some t'"
  shows "up_inv w host s (up t') (up_events (trace t'))"
proof -
  from assms(2) have "up t' = up t \<and> up_events (trace t') = up_events (trace t)"
    by (auto simp add: step_down_def
        split: dpc.splits list.splits sum.splits option.splits if_splits)
  with assms(1) show ?thesis by simp
qed

lemma run_up_inv:
  "up_inv w host s (up t) (up_events (trace t)) \<Longrightarrow>
   up_inv w host s (up (run w host s sched t)) (up_events (trace (run w host s sched t)))"
proof (induction sched arbitrary: t)
  case Nil
  then show ?case by simp
next
  case (Cons th ths)
  show ?case
  proof (cases "step w host s th t")
    case None
    with Cons show ?thesis by simp
  next
    case (Some t')
    with Cons.prems have "up_inv w host s (up t') (up_events (trace t'))"
      by (cases th) (auto simp add: step_def intro: step_up_up_inv step_down_up_inv)
    with Cons.IH Some show ?thesis by simp
  qed
qed

lemma up_inv_turn:
  assumes "up_inv w host s u us"
  shows "forwarded_in_turn w host s us"
  using assms by (cases u) (auto simp add: whole_up_turn whole_up_snoc_read)

lemma setup_no_up_events:
  assumes "Connect_setup w e s = (tr, ro)"
  shows "up_events tr = []"
  using assms
  by (auto simp add: Connect_setup_def Let_def
      split: if_splits option.splits sum.splits prod.splits)

lemma forward_two_steps:
  assumes "up t = U_Read" and "sconn_in t = Inr creq # rest" and "req_URL creq = Some u"
    and "rconn_out t = None # rest'"
  shows "run w host s [Up, Up] t =
           t\<lparr>up := U_Send (rewrite w host s creq u), sconn_in := rest, rconn_out := rest',
             trace := trace t @ [ReadRequest (Inr creq), WriteProxy (rewrite w host s creq u) None]\<rparr>"
  using assms by (simp add: step_def step_up_def)

lemma setup_host:
  assumes "Connect_setup w e s = (tr, Some h)" and "req_URL (Request s) = Some u"
    and "SplitHostPort w (url_Host u) = Inr (host, port)"
  shows "h = host"
  using assms
  by (auto simp add: Connect_setup_def Let_def split: if_splits option.splits)

lemma ex_pipelined2:
  "Connect ex_world9 ex_env ex_connect [Up, Up] =
     ex_setup_trace @
     [ReadRequest (Inr (ex_tunnel_request ''/1'')),
      WriteProxy (rewrite ex_world9 ''secure.example.com'' ex_connect (ex_tunnel_request ''/1'')
        (ex_path_url ''/1'')) None]"
  by (simp add: Connect_def ex_setup9 relay_init_def step_def step_up_def)

subsection \<open>Decimal numerals\<close>

lemma digit_char: "k < 10 \<Longrightarrow> of_char (''0123456789'' ! k) = (48 + k :: nat)"
proof -
  assume "k < 10"
  then have "k \<in> {0, 1, 2, 3, 4, 5, 6, 7, 8, 9}" by auto
  then show ?thesis by auto
qed

lemma read_decimal_digits: "read_decimal (digits n) = n"
proof (induction n rule: digits.induct)
  case (1 n)
  show ?case
  proof (cases "n < 10")
    case True
    then show ?thesis by (simp add: digits.simps [of n] read_decimal_def digit_char)
  next
    case False
    with 1 have "read_decimal (digits (n div 10)) = n div 10" by simp
    with False show ?thesis
      by (simp add: digits.simps [of n] read_decimal_def digit_char)
  qed
qed

lemma digits_nonempty: "digits n \<noteq> []"
  by (simp add: digits.simps [of n])

lemma digit_in: "k < 10 \<Longrightarrow> ''0123456789'' ! k \<in> set ''0123456789''"
  by (rule nth_mem) simp

lemma digits_chars: "set (digits n) \<subseteq> set ''0123456789''"
proof (induction n rule: digits.induct)
  case (1 n)
  show ?case
  proof (cases "n < 10")
    case True
    with digit_in [of n] show ?thesis by (simp add: digits.simps [of n])
  next
    case False
    have "n mod 10 < 10" by simp
    with False 1 digit_in [of "n mod 10"] show ?thesis
      by (simp add: digits.simps [of n])
  qed
qed

lemma digit_nonzero: "0 < k \<Longrightarrow> k < 10 \<Longrightarrow> ''0123456789'' ! k \<noteq> CHR ''0''"
proof -
  assume "0 < k" "k < 10"
  then have "k \<in> {1, 2, 3, 4, 5, 6, 7, 8, 9}" by auto
  then show ?thesis by auto
qed

lemma digits_leading: "0 < n \<Longrightarrow> hd (digits n) \<noteq> CHR ''0''"
proof (induction n rule: digits.induct)
  case (1 n)
  show ?case
  proof (cases "n < 10")
    case True
    from "1.prems" True have "''0123456789'' ! n \<noteq> CHR ''0''" by (rule digit_nonzero)
    with True show ?thesis by (simp add: digits.simps [of n])
  next
    case False
    then have "0 < n div 10" by simp
    with False 1 have "hd (digits (n div 10)) \<noteq> CHR ''0''" by simp
    with False show ?thesis by (simp add: digits.simps [of n] digits_nonempty)
  qed
qed

lemma digits_zero: "digits 0 = ''0''"
  by (simp add: digits.simps [of 0])

lemma FormatInt10_numeral:
  "\<exists>ds. FormatInt10 i = (if i < 0 then CHR ''-'' # ds else ds) \<and> ds \<noteq> [] \<and>
     set ds \<subseteq> set ''0123456789'' \<and> (hd ds = CHR ''0'' \<longrightarrow> ds = ''0'') \<and>
     int (read_decimal ds) = \<bar>i\<bar>"
proof -
  define n where "n = nat \<bar>i\<bar>"
  have l: "hd (digits n) = CHR ''0'' \<longrightarrow> digits n = ''0''"
    using digits_leading [of n] digits_zero by (cases "n = 0") auto
  have "FormatInt10 i = (if i < 0 then CHR ''-'' # digits n else digits n)"
    by (simp add: FormatInt10_def n_def)
  moreover have "int (read_decimal (digits n)) = \<bar>i\<bar>"
    by (simp add: read_decimal_digits n_def)
  ultimately show ?thesis using digits_nonempty [of n] digits_chars [of n] l by blast
qed

lemma ex_rewritten1_eval:
  "rewrite ex_world9 ''secure.example.com'' ex_connect (ex_tunnel_request ''/1'')
     (ex_path_url ''/1'') = ex_rewritten1"
  by (simp add: rewrite_def ex_rewritten1_def ex_world9_def ex_world_def ex_Parse_def
      ex_path_url_def ex_connect_def ex_session_def ex_tunnel_request_def ex_request_def
      FormatInt10_def digits.simps [of 42] digits.simps [of 4])

subsection \<open>The plain request\<close>

lemma ex_world_serve [simp]:
  "WriteProxy_buf ex_world r = Inr ''GET http://example.com/ HTTP/1.1''"
  "Post ex_world u c b = Inr (ex_response ''HTTP/1.1 200 OK'' False)"
  "ReadResponse_body ex_world p r = Inr (ex_response ''hello'' False)"
  "io_Copy ex_world p = None" "Since ex_world = ''1ms''"
  by (simp_all add: ex_world_def)

lemma ex_plain_simps [simp]:
  "req_Method (Request ex_plain) = ''GET''"
  by (simp add: ex_plain_def ex_session_def ex_request_def)

lemma ex_response_simps [simp]:
  "resp_StatusCode (ex_response b c) = 200" "resp_Status (ex_response b c) = ''200 OK''"
  "resp_Close (ex_response b c) = c"
  by (simp_all add: ex_response_def)

subsection \<open>The runs given by segments, and the run to the panic\<close>

lemma ex_world_segments_simps [simp]:
  "SplitHostPort (ex_world_segments reqs resps) = ex_SplitHostPort"
  "Hijack (ex_world_segments reqs resps) = Some None"
  "Dial (ex_world_segments reqs resps) n a = None"
  "Certs_Get (ex_world_segments reqs resps) h = None"
  "Handshake (ex_world_segments reqs resps) = None"
  "Since (ex_world_segments reqs resps) = ''1ms''"
  "ReadRequest_sconn (ex_world_segments reqs resps) = fresh_reader_results reqs"
  "WriteProxy_rconn (ex_world_segments reqs resps) = [None, None, None]"
  "ReadResponse_rconn (ex_world_segments reqs resps) = fresh_reader_results resps"
  "Write_sconn (ex_world_segments reqs resps) = [None, None, None]"
  "WriteProxy_panics (ex_world_segments reqs resps) r = False"
  "rewrite (ex_world_segments reqs resps) = rewrite ex_world"
  by (simp_all add: ex_world_segments_def ex_world_def rewrite_def fun_eq_iff)

lemma ex_world_nilurl_simps [simp]:
  "SplitHostPort ex_world_nilurl = ex_SplitHostPort"
  "Hijack ex_world_nilurl = Some None"
  "Dial ex_world_nilurl n a = None"
  "Certs_Get ex_world_nilurl h = None"
  "Handshake ex_world_nilurl = None"
  "ReadRequest_sconn ex_world_nilurl = [Inr (ex_tunnel_request ''/'')]"
  "WriteProxy_rconn ex_world_nilurl = []"
  "ReadResponse_rconn ex_world_nilurl = []"
  "Write_sconn ex_world_nilurl = []"
  "WriteProxy_panics ex_world_nilurl r = (req_URL r = None)"
  "url_Parse ex_world_nilurl = ex_Parse" "url_String ex_world_nilurl = url_Path"
  by (simp_all add: ex_world_nilurl_def ex_world_def)

lemma ex_connect_v6_simps [simp]:
  "req_Method (Request ex_connect_v6) = ''CONNECT''"
  "req_URL (Request ex_connect_v6) = Some (ex_host_url ''[::ffff]:443'')"
  "ex_SplitHostPort ''[::ffff]:443'' = Inr (''::ffff'', ''443'')"
  by (simp_all add: ex_connect_v6_def ex_session_def ex_request_def ex_SplitHostPort_def)

text \<open>When every response reaches the proxy in a segment of its own, the three
  responses go to the client in the order of the requests.\<close>

lemma pipelined_apart:
  "down_events
     (Connect
        (ex_world_segments
           [[ex_tunnel_request ''/1''], [ex_tunnel_request ''/2''], [ex_tunnel_request ''/3'']]
           [[ex_response ''one'' False], [ex_response ''two'' False],
            [ex_response ''three'' False]])
        ex_env ex_connect ex_sched3) =
     [ReadResponse (ex_forwarded_path ''/1'') (Inr (ex_response ''one'' False)),
      RespWrite (ex_response ''one'' False) None,
      ReadResponse (ex_forwarded_path ''/2'') (Inr (ex_response ''two'' False)),
      RespWrite (ex_response ''two'' False) None,
      ReadResponse (ex_forwarded_path ''/3'') (Inr (ex_response ''three'' False)),
      RespWrite (ex_response ''three'' False) None]"
  by (simp add: Connect_def Connect_setup_def relay_init_def step_def step_up_def
      step_down_def ex_sched3_def ex_forwarded_path_def)

subsection \<open>The runs with one request, and the steps that leave the loops\<close>

lemma ex_world_one_simps [simp]:
  "SplitHostPort (ex_world_one resps writes) = ex_SplitHostPort"
  "Hijack (ex_world_one resps writes) = Some None"
  "Dial (ex_world_one resps writes) n a = None"
  "Certs_Get (ex_world_one resps writes) h = None"
  "Handshake (ex_world_one resps writes) = None"
  "Since (ex_world_one resps writes) = ''1ms''"
  "ReadRequest_sconn (ex_world_one resps writes) = [Inr (ex_tunnel_request ''/''), Inl EOF]"
  "WriteProxy_rconn (ex_world_one resps writes) = [None]"
  "ReadResponse_rconn (ex_world_one resps writes) = resps"
  "Write_sconn (ex_world_one resps writes) = writes"
  "WriteProxy_panics (ex_world_one resps writes) r = False"
  "rewrite (ex_world_one resps writes) = rewrite ex_world"
  by (simp_all add: ex_world_one_def ex_world_def rewrite_def fun_eq_iff)

lemma step_rconn_in:
  assumes "step w host s th t = Some t'"
  shows "set (rconn_in t') \<subseteq> set (rconn_in t)"
  using assms
  by (cases th)
    (auto simp add: step_def step_up_def step_down_def
      split: upc.splits dpc.splits list.splits sum.splits option.splits if_splits)

lemma run_rconn_in: "set (rconn_in (run w host s sched t)) \<subseteq> set (rconn_in t)"
proof (induction sched arbitrary: t)
  case Nil
  then show ?case by simp
next
  case (Cons th ths)
  show ?case
  proof (cases "step w host s th t")
    case None
    with Cons show ?thesis by simp
  next
    case (Some t')
    then have "set (rconn_in t') \<subseteq> set (rconn_in t)" by (rule step_rconn_in)
    moreover from Cons.IH [of t'] Some have
      "set (rconn_in (run w host s (th # ths) t)) \<subseteq> set (rconn_in t')"
      by simp
    ultimately show ?thesis by blast
  qed
qed

lemma upstream_exit_steps:
  "(\<forall>err rest. up t = U_Read \<and> sconn_in t = Inl err # rest \<longrightarrow>
      step_up w host s t =
        Some (t\<lparr>up := U_Done, chan_closed := True, sconn_in := rest,
                trace := trace t @ [ReadRequest (Inl err)] @
                  (if err = EOF then [] else [SessionError ''ReadRequest: %s'' [Error err]]) @
                  [ChanClose]\<rparr>)) \<and>
   (\<forall>creq err rest. up t = U_Write creq \<and> rconn_out t = Some err # rest \<longrightarrow>
      step_up w host s t =
        Some (t\<lparr>up := U_Done, chan_closed := True, rconn_out := rest,
                trace := trace t @
                  [WriteProxy creq (Some err), SessionError ''WriteProxy: %s'' [Error err],
                   ChanClose]\<rparr>)) \<and>
   (\<forall>creq. up t = U_Send creq \<and> length (chan t) < 8 \<and> req_Close creq \<longrightarrow>
      step_up w host s t =
        Some (t\<lparr>up := U_Done, chan := chan t @ [creq], chan_closed := True,
                trace := trace t @ [ChanSend creq, ChanClose]\<rparr>)) \<and>
   (\<forall>t'. step_up w host s t = Some t' \<longrightarrow>
      (up t' = U_Done \<longleftrightarrow>
         (up t = U_Read \<and> (\<exists>err rest. sconn_in t = Inl err # rest)) \<or>
         (\<exists>creq err rest. up t = U_Write creq \<and> rconn_out t = Some err # rest) \<or>
         (\<exists>creq. up t = U_Send creq \<and> req_Close creq)))"
  by (auto simp add: step_up_def split: upc.splits list.splits sum.splits option.splits if_splits)

lemma ex_writing_eof_eval:
  "down ex_writing_eof = D_Write (ex_response ''hello'' False) \<and>
   sconn_out ex_writing_eof = [Some EOF] \<and> up ex_writing_eof = U_Done \<and>
   trace ex_writing_eof = ex_setup_trace @
     [ReadRequest (Inr (ex_tunnel_request ''/'')), WriteProxy (ex_forwarded_path ''/'') None,
      ChanSend (ex_forwarded_path ''/''), ReadRequest (Inl EOF), ChanClose,
      ChanRecv (Some (ex_forwarded_path ''/'')),
      ReadResponse (ex_forwarded_path ''/'') (Inr (ex_response ''hello'' False))]"
  by (simp add: ex_writing_eof_def relay_init_def step_def step_up_def step_down_def
      ex_forwarded_path_def)

lemma ex_one_traces:
  "Connect (ex_world_one [Inr (ex_response ''hello'' False)] [None]) ex_env ex_connect
       ex_sched_one =
     ex_setup_trace @
     [ReadRequest (Inr (ex_tunnel_request ''/'')), WriteProxy (ex_forwarded_path ''/'') None,
      ChanSend (ex_forwarded_path ''/''), ReadRequest (Inl EOF), ChanClose,
      ChanRecv (Some (ex_forwarded_path ''/'')),
      ReadResponse (ex_forwarded_path ''/'') (Inr (ex_response ''hello'' False)),
      RespWrite (ex_response ''hello'' False) None, ChanRecv None,
      SessionInfo ''CLOSE %s'' [''1ms''], BodyClose (ex_response ''hello'' False),
      SconnClose, RconnClose, ConnClose]"
  "Connect (ex_world_one [Inl (Failure ''unexpected EOF'')] []) ex_env ex_connect
       ex_sched_one =
     ex_setup_trace @
     [ReadRequest (Inr (ex_tunnel_request ''/'')), WriteProxy (ex_forwarded_path ''/'') None,
      ChanSend (ex_forwarded_path ''/''), ReadRequest (Inl EOF), ChanClose,
      ChanRecv (Some (ex_forwarded_path ''/'')),
      ReadResponse (ex_forwarded_path ''/'') (Inl (Failure ''unexpected EOF'')),
      SessionError ''ReadResponse: %s'' [''unexpected EOF''],
      SessionInfo ''CLOSE %s'' [''1ms''], SconnClose, RconnClose, ConnClose]"
  "Connect (ex_world_one [Inr (ex_response ''hello'' False)] [Some EOF]) ex_env ex_connect
       ex_sched_one =
     ex_setup_trace @
     [ReadRequest (Inr (ex_tunnel_request ''/'')), WriteProxy (ex_forwarded_path ''/'') None,
      ChanSend (ex_forwarded_path ''/''), ReadRequest (Inl EOF), ChanClose,
      ChanRecv (Some (ex_forwarded_path ''/'')),
      ReadResponse (ex_forwarded_path ''/'') (Inr (ex_response ''hello'' False)),
      RespWrite (ex_response ''hello'' False) (Some EOF),
      SessionInfo ''CLOSE %s'' [''1ms''], BodyClose (ex_response ''hello'' False),
      SconnClose, RconnClose, ConnClose]"
  "Connect (ex_world_one [Inr (ex_response ''hello'' False)] [Some (Failure ''broken pipe'')])
       ex_env ex_connect ex_sched_one =
     ex_setup_trace @
     [ReadRequest (Inr (ex_tunnel_request ''/'')), WriteProxy (ex_forwarded_path ''/'') None,
      ChanSend (ex_forwarded_path ''/''), ReadRequest (Inl EOF), ChanClose,
      ChanRecv (Some (ex_forwarded_path ''/'')),
      ReadResponse (ex_forwarded_path ''/'') (Inr (ex_response ''hello'' False)),
      RespWrite (ex_response ''hello'' False) (Some (Failure ''broken pipe'')),
      SessionError ''Write: %s'' [''broken pipe''],
      SessionInfo ''CLOSE %s'' [''1ms''], BodyClose (ex_response ''hello'' False),
      SconnClose, RconnClose, ConnClose]"
  "Connect (ex_world_one [Inr (ex_response ''bye'' True)] [None]) ex_env ex_connect
       ex_sched_one =
     ex_setup_trace @
     [ReadRequest (Inr (ex_tunnel_request ''/'')), WriteProxy (ex_forwarded_path ''/'') None,
      ChanSend (ex_forwarded_path ''/''), ReadRequest (Inl EOF), ChanClose,
      ChanRecv (Some (ex_forwarded_path ''/'')),
      ReadResponse (ex_forwarded_path ''/'') (Inr (ex_response ''bye'' True)),
      RespWrite (ex_response ''bye'' True) None,
      SessionInfo ''CLOSE %s'' [''1ms''], BodyClose (ex_response ''bye'' True),
      SconnClose, RconnClose, ConnClose]"
  by (simp_all add: Connect_def Connect_setup_def relay_init_def step_def step_up_def
      step_down_def ex_sched_one_def ex_forwarded_path_def ex_setup_trace_def)

section \<open>The claims\<close>

text \<open>
  C1, on an input where the code breaks it. The client sends \<open>/1\<close>, \<open>/2\<close> and \<open>/3\<close>,
  each in a segment of its own, and all three are written upstream; the backend answers
  \<open>one\<close>, \<open>two\<close>, \<open>three\<close> in this order, and \<open>one\<close> and \<open>two\<close> reach the proxy in
  one segment. The reader of the first iteration of the downstream loop takes both into
  its buffer and is dropped with \<open>two\<close> still there: the client is sent \<open>one\<close> and then
  \<open>three\<close>, read for \<open>/2\<close>; \<open>two\<close> is never written and \<open>/3\<close> is never answered. In
  the same way, when the three requests reach the proxy in one segment, only \<open>/1\<close> is
  written upstream.
\<close>

theorem pipelined_responses_lost:
  "down_events
     (Connect
        (ex_world_segments
           [[ex_tunnel_request ''/1''], [ex_tunnel_request ''/2''], [ex_tunnel_request ''/3'']]
           [[ex_response ''one'' False, ex_response ''two'' False],
            [ex_response ''three'' False]])
        ex_env ex_connect ex_sched3) =
     [ReadResponse (ex_forwarded_path ''/1'') (Inr (ex_response ''one'' False)),
      RespWrite (ex_response ''one'' False) None,
      ReadResponse (ex_forwarded_path ''/2'') (Inr (ex_response ''three'' False)),
      RespWrite (ex_response ''three'' False) None] \<and>
   sent_upstream
     (Connect
        (ex_world_segments
           [[ex_tunnel_request ''/1''], [ex_tunnel_request ''/2''], [ex_tunnel_request ''/3'']]
           [[ex_response ''one'' False, ex_response ''two'' False],
            [ex_response ''three'' False]])
        ex_env ex_connect ex_sched3) =
     [ex_forwarded_path ''/1'', ex_forwarded_path ''/2'', ex_forwarded_path ''/3''] \<and>
   sent_upstream
     (Connect
        (ex_world_segments
           [[ex_tunnel_request ''/1'', ex_tunnel_request ''/2'', ex_tunnel_request ''/3'']]
           [[ex_response ''one'' False], [ex_response ''two'' False],
            [ex_response ''three'' False]])
        ex_env ex_connect ex_sched3) =
     [ex_forwarded_path ''/1'']"
  by (simp add: Connect_def Connect_setup_def relay_init_def step_def step_up_def
      step_down_def ex_sched3_def ex_forwarded_path_def)

text \<open>
  C2. A CONNECT whose port is not 443 is refused before the hijack and the dial: the
  whole trace of \<open>Connect\<close> is the one error report, and a trace that holds a hijack or
  a dial comes from a request whose port is 443.
\<close>

theorem connect_port_check:
  assumes "req_Method (Request s) = ''CONNECT''"
    and "req_URL (Request s) = Some u"
    and "SplitHostPort w (url_Host u) = Inr (host, port)"
  shows "(port \<noteq> ''443'' \<longrightarrow>
            Connect w e s sched = [SessionError ''unsupported CONNECT port: %s'' [port]]) \<and>
         (HijackConn \<in> set (Connect w e s sched) \<or>
          (\<exists>n a. DialBackend n a \<in> set (Connect w e s sched)) \<longrightarrow> port = ''443'')"
  using assms by (auto simp add: Connect_def Connect_setup_def)

theorem connect_port_check_witness:
  "Connect ex_world ex_env ex_connect80 [Up, Down] =
     [SessionError ''unsupported CONNECT port: %s'' [''80'']]"
  using connect_port_check [of ex_connect80 "ex_host_url ''secure.example.com:80''" ex_world
      "''secure.example.com''" "''80''" ex_env "[Up, Down]"]
  by (simp add: ex_connect80_def ex_session_def ex_request_def ex_world_def ex_host_url_def
      ex_SplitHostPort_def)

text \<open>
  C3, as amended. The channel never holds more than 8 requests. The upstream loop is held
  up by the channel at its send only: the send blocks exactly while the channel holds 8
  requests, and goes through once the downstream loop has received one. Reading a
  request and writing it upstream are not held up by a full channel, so that when the
  send blocks the request to send has already been read and written upstream: at most 9
  requests written upstream are not yet received by the downstream loop.
\<close>

theorem channel_capacity:
  assumes "Connect_setup w e s = (tr, Some host)"
    and "t = run w host s sched (relay_init w tr)"
  shows "length (chan t) \<le> 8 \<and>
         length (sent_upstream (trace t)) \<le> length (received (trace t)) + 9 \<and>
         (\<forall>creq. up t = U_Send creq \<longrightarrow> (step_up w host s t = None \<longleftrightarrow> length (chan t) = 8)) \<and>
         (up t = U_Read \<and> sconn_in t \<noteq> [] \<longrightarrow> step_up w host s t \<noteq> None) \<and>
         (\<forall>creq. up t = U_Write creq \<and> rconn_out t \<noteq> [] \<longrightarrow> step_up w host s t \<noteq> None) \<and>
         (\<forall>creq. up t = U_Send creq \<and> down t = D_Recv \<and> length (chan t) = 8 \<longrightarrow>
            (\<exists>t'. step_down w t = Some t' \<and> step_up w host s t' \<noteq> None))"
proof -
  from assms have inv: "relay_inv t" by (simp add: setup_relay_inv)
  then have le: "length (chan t) \<le> 8" by (simp add: relay_inv_def)
  from inv have count: "length (sent_upstream (trace t)) \<le> length (received (trace t)) + 9"
    by (rule relay_inv_count)
  from le have send: "\<forall>creq. up t = U_Send creq \<longrightarrow>
      (step_up w host s t = None \<longleftrightarrow> length (chan t) = 8)"
    by (auto simp add: step_up_def)
  have rd: "up t = U_Read \<and> sconn_in t \<noteq> [] \<longrightarrow> step_up w host s t \<noteq> None"
    by (auto simp add: step_up_def split: list.splits sum.splits option.splits)
  have wr: "\<forall>creq. up t = U_Write creq \<and> rconn_out t \<noteq> [] \<longrightarrow> step_up w host s t \<noteq> None"
    by (auto simp add: step_up_def split: list.splits option.splits)
  have free: "\<forall>creq. up t = U_Send creq \<and> down t = D_Recv \<and> length (chan t) = 8 \<longrightarrow>
      (\<exists>t'. step_down w t = Some t' \<and> step_up w host s t' \<noteq> None)"
    by (auto simp add: step_down_def step_up_def split: list.splits)
  from le count send rd wr free show ?thesis by blast
qed

theorem channel_capacity_witness:
  "length (chan ex_blocked) = 8 \<and>
   step_up ex_world9 ''secure.example.com'' ex_connect ex_blocked = None \<and>
   (\<exists>t'. step_down ex_world9 ex_blocked = Some t' \<and>
      step_up ex_world9 ''secure.example.com'' ex_connect t' \<noteq> None)"
  using channel_capacity [OF ex_setup9, of ex_blocked "ex_sched24 @ [Up, Up]"] ex_blocked_eval
  by (simp add: ex_blocked_def)

text \<open>
  C3 as stated fails: with 8 requests in the channel and none received by the
  downstream loop, the upstream loop does not stop reading. It reads the ninth request
  of the client and writes it upstream; only its send then blocks.
\<close>

theorem full_channel_counterexample:
  "Connect_setup ex_world9 ex_env ex_connect = (ex_setup_trace, Some ''secure.example.com'') \<and>
   length (chan ex_full) = 8 \<and> received (trace ex_full) = [] \<and> up ex_full = U_Read \<and>
   up (run ex_world9 ''secure.example.com'' ex_connect [Up] ex_full) =
     U_Write (rewrite ex_world9 ''secure.example.com'' ex_connect (ex_tunnel_request ''/9'')
       (ex_path_url ''/9'')) \<and>
   length (sent_upstream (trace (run ex_world9 ''secure.example.com'' ex_connect [Up, Up] ex_full))) = 9"
  by (simp add: ex_setup9 ex_full_def ex_sched24_def relay_init_def step_def step_up_def
      received_def sent_upstream_def ex_setup_trace_def)

text \<open>
  C4. When the method and port checks, the hijack and the dial succeed, the trace of
  \<open>Connect\<close> starts with the hijack, the dial, the write of the bytes
  \<open>HTTP/1.1 200 OK\<close>, CR LF CR LF on the raw connection, and the lookup of the
  certificate, in this order; the handshake, when it takes place, comes later. Nothing
  else is ever written on the raw connection, under any scheduling of the relay.
\<close>

theorem ok_written_after_dial:
  assumes "req_Method (Request s) = ''CONNECT''"
    and "req_URL (Request s) = Some u"
    and "SplitHostPort w (url_Host u) = Inr (host, ''443'')"
    and "Hijack w = Some None"
    and "Dial w ''tcp'' (Addr e) = None"
  shows "\<exists>rest. Connect w e s sched =
             [HijackConn, DialBackend ''tcp'' (Addr e),
              ConnWrite (''HTTP/1.1 200 OK'' @ [CHR 0x0D, CHR 0x0A, CHR 0x0D, CHR 0x0A]),
              CertsGet host] @ rest \<and>
           (\<forall>b. ConnWrite b \<notin> set rest) \<and> (\<forall>n a. DialBackend n a \<notin> set rest) \<and>
           (\<forall>h. CertsGet h \<notin> set rest)"
proof (cases "Certs_Get w host")
  case (Some err)
  with assms show ?thesis by (simp add: Connect_def Connect_setup_def ok_200_def)
next
  case None
  note cert = this
  show ?thesis
  proof (cases "Handshake w")
    case (Some err)
    with assms cert show ?thesis by (simp add: Connect_def Connect_setup_def ok_200_def)
  next
    case None
    define tr where "tr = [HijackConn, DialBackend ''tcp'' (Addr e), ConnWrite ok_200,
      CertsGet host, TLSServer host, TLSHandshake]"
    from assms cert None have c: "Connect w e s sched = trace (run w host s sched (relay_init w tr))"
      by (simp add: Connect_def Connect_setup_def tr_def)
    obtain es where es: "trace (run w host s sched (relay_init w tr)) = trace (relay_init w tr) @ es"
      "list_all relay_event es"
      using run_trace by blast
    from es(2) have "(\<forall>b. ConnWrite b \<notin> set es) \<and> (\<forall>n a. DialBackend n a \<notin> set es) \<and>
         (\<forall>h. CertsGet h \<notin> set es)"
      by (rule relay_event_absent)
    with c es(1) show ?thesis by (simp add: relay_init_def tr_def ok_200_def)
  qed
qed

theorem ok_written_after_dial_witness:
  "\<exists>rest. Connect ex_world9 ex_env ex_connect ex_sched24 =
             [HijackConn, DialBackend ''tcp'' ''127.0.0.1:1315'',
              ConnWrite (''HTTP/1.1 200 OK'' @ [CHR 0x0D, CHR 0x0A, CHR 0x0D, CHR 0x0A]),
              CertsGet ''secure.example.com''] @ rest \<and>
           (\<forall>b. ConnWrite b \<notin> set rest) \<and> (\<forall>n a. DialBackend n a \<notin> set rest) \<and>
           (\<forall>h. CertsGet h \<notin> set rest)"
  using ok_written_after_dial [of ex_connect "ex_host_url ''secure.example.com:443''" ex_world9
      "''secure.example.com''" ex_env ex_sched24]
  by simp

text \<open>
  C5. In every run of \<open>Connect\<close> each call of \<open>WriteProxy\<close> on the backend connection
  (whether it succeeds or not) comes directly after the read of a request \<open>creq\<close> from
  the client and writes \<open>creq\<close> rewritten: its URL is what \<open>url.Parse\<close> returns for
  \<open>"https://" + host + creq.URL.String()\<close>, with \<open>host\<close> the host of the CONNECT target,
  its header \<open>Mallory-Session\<close> is \<open>strconv.FormatInt(s.ID, 10)\<close>, and method, \<open>Close\<close>
  and the other headers are unchanged. The loop does forward: from the point where it is
  about to read, with a request to read and a write that succeeds, its next two steps
  read the request and write its rewriting. The header value is the decimal numeral of
  the id: an optional minus sign and then digits, with no leading zero, whose value is
  the absolute value of the id.
\<close>

theorem forwarded_request_rewritten:
  assumes "req_URL (Request s) = Some u0"
    and "SplitHostPort w (url_Host u0) = Inr (host, port)"
  shows "forwarded_in_turn w host s (up_events (Connect w e s sched)) \<and>
         (\<forall>t creq u rest rest'.
            up t = U_Read \<and> sconn_in t = Inr creq # rest \<and> req_URL creq = Some u \<and>
            rconn_out t = None # rest' \<longrightarrow>
            (\<exists>r. rewritten_from w host s creq r \<and>
               run w host s [Up, Up] t =
                 t\<lparr>up := U_Send r, sconn_in := rest, rconn_out := rest',
                   trace := trace t @ [ReadRequest (Inr creq), WriteProxy r None]\<rparr>)) \<and>
         (\<exists>ds. FormatInt10 (ID s) = (if ID s < 0 then CHR ''-'' # ds else ds) \<and> ds \<noteq> [] \<and>
            set ds \<subseteq> set ''0123456789'' \<and> (hd ds = CHR ''0'' \<longrightarrow> ds = ''0'') \<and>
            int (read_decimal ds) = \<bar>ID s\<bar>)"
proof -
  have a: "forwarded_in_turn w host s (up_events (Connect w e s sched))"
  proof (cases "Connect_setup w e s")
    case (Pair tr ro)
    then have none: "up_events tr = []" by (rule setup_no_up_events)
    show ?thesis
    proof (cases ro)
      case None
      with Pair none show ?thesis by (simp add: Connect_def)
    next
      case (Some h)
      with Pair assms have h: "h = host" by (simp add: setup_host)
      from none have "up_inv w host s (up (relay_init w tr)) (up_events (trace (relay_init w tr)))"
        by (simp add: relay_init_def)
      then have "up_inv w host s (up (run w host s sched (relay_init w tr)))
          (up_events (trace (run w host s sched (relay_init w tr))))"
        by (rule run_up_inv)
      then have "forwarded_in_turn w host s
          (up_events (trace (run w host s sched (relay_init w tr))))"
        by (rule up_inv_turn)
      with Pair Some h show ?thesis by (simp add: Connect_def)
    qed
  qed
  have b: "\<forall>t creq u rest rest'.
            up t = U_Read \<and> sconn_in t = Inr creq # rest \<and> req_URL creq = Some u \<and>
            rconn_out t = None # rest' \<longrightarrow>
            (\<exists>r. rewritten_from w host s creq r \<and>
               run w host s [Up, Up] t =
                 t\<lparr>up := U_Send r, sconn_in := rest, rconn_out := rest',
                   trace := trace t @ [ReadRequest (Inr creq), WriteProxy r None]\<rparr>)"
    using forward_two_steps rewritten_from_rewrite by blast
  from a b FormatInt10_numeral [of "ID s"] show ?thesis by blast
qed

theorem forwarded_request_rewritten_witness:
  "forwarded_in_turn ex_world9 ''secure.example.com'' ex_connect
     (up_events (Connect ex_world9 ex_env ex_connect [Up, Up])) \<and>
   up_events (Connect ex_world9 ex_env ex_connect [Up, Up]) =
     [ReadRequest (Inr (ex_tunnel_request ''/1'')), WriteProxy ex_rewritten1 None]"
proof -
  have u: "req_URL (Request ex_connect) = Some (ex_host_url ''secure.example.com:443'')"
    by simp
  have sp: "SplitHostPort ex_world9 (url_Host (ex_host_url ''secure.example.com:443'')) =
    Inr (''secure.example.com'', ''443'')"
    by simp
  from forwarded_request_rewritten [OF u sp, of ex_env "[Up, Up]"]
  have "forwarded_in_turn ex_world9 ''secure.example.com'' ex_connect
     (up_events (Connect ex_world9 ex_env ex_connect [Up, Up]))"
    by (rule conjunct1)
  moreover have "up_events (Connect ex_world9 ex_env ex_connect [Up, Up]) =
     [ReadRequest (Inr (ex_tunnel_request ''/1'')), WriteProxy ex_rewritten1 None]"
    by (simp add: ex_pipelined2 ex_rewritten1_eval ex_setup_trace_def)
  ultimately show ?thesis by simp
qed

text \<open>
  C6, on an input where the code breaks it. The tunnel goes to \<open>::ffff\<close>; the client
  sends one request, which does not declare \<open>Close\<close>. \<open>url.Parse\<close> fails on
  \<open>https://::ffff/\<close>, the error is not looked at, and \<open>WriteProxy\<close> panics on the
  request without URL. The upstream goroutine ends there: the read had succeeded, no
  write has returned an error, and nothing is reported to the session. (The four
  exits that the claim lists are as it says: \<open>upstream_exit_steps\<close>.)
\<close>

theorem upstream_panic_exit:
  "Connect ex_world_nilurl ex_env ex_connect_v6 [Up, Up] =
     ex_setup_trace_v6 @ [ReadRequest (Inr (ex_tunnel_request ''/'')), ChanClose, Panic] \<and>
   up (run ex_world_nilurl ''::ffff'' ex_connect_v6 [Up, Up]
         (relay_init ex_world_nilurl ex_setup_trace_v6)) = U_Panicked \<and>
   req_Close (ex_tunnel_request ''/'') = False"
  by (simp add: Connect_def Connect_setup_def relay_init_def step_def step_up_def
      ex_setup_trace_v6_def ex_Parse_def ex_path_url_def)

text \<open>
  C7. \<open>http.ReadResponse\<close> does not return \<open>io.EOF\<close>: it turns it into
  \<open>io.ErrUnexpectedEOF\<close>. Under this, at every state that a tunnel reaches and as long
  as the process has not panicked: when the channel is closed and empty, when
  \<open>ReadResponse\<close> fails, when the write to the client fails, and when the response
  written declares \<open>Close\<close>, the downstream loop takes the step that leaves the loop,
  with the events given; a step leaves the loop in these four cases only; and a step
  reports an error to the session exactly when a read or a write failed with an error
  other than \<open>EOF\<close>.
\<close>

theorem downstream_loop_exit:
  assumes "Inl EOF \<notin> set (ReadResponse_rconn w)"
    and "t = run w host s sched (relay_init w tr)"
    and "up t \<noteq> U_Panicked"
  shows
    "(down t = D_Recv \<and> chan t = [] \<and> chan_closed t \<longrightarrow>
        step_down w t = Some (t\<lparr>down := D_Exit, trace := trace t @ [ChanRecv None]\<rparr>)) \<and>
     (\<forall>creq err rest. down t = D_Read creq \<and> rconn_in t = Inl err # rest \<longrightarrow>
        err \<noteq> EOF \<and>
        step_down w t =
          Some (t\<lparr>down := D_Exit, rconn_in := rest,
                  trace := trace t @
                    [ReadResponse creq (Inl err),
                     SessionError ''ReadResponse: %s'' [Error err]]\<rparr>)) \<and>
     (\<forall>cresp rest. down t = D_Write cresp \<and> sconn_out t = Some EOF # rest \<longrightarrow>
        step_down w t =
          Some (t\<lparr>down := D_Exit, sconn_out := rest,
                  trace := trace t @ [RespWrite cresp (Some EOF)]\<rparr>)) \<and>
     (\<forall>cresp err rest. down t = D_Write cresp \<and> sconn_out t = Some err # rest \<and>
        err \<noteq> EOF \<longrightarrow>
        step_down w t =
          Some (t\<lparr>down := D_Exit, sconn_out := rest,
                  trace := trace t @
                    [RespWrite cresp (Some err), SessionError ''Write: %s'' [Error err]]\<rparr>)) \<and>
     (\<forall>cresp rest. down t = D_Write cresp \<and> sconn_out t = None # rest \<and>
        resp_Close cresp \<longrightarrow>
        step_down w t =
          Some (t\<lparr>down := D_Exit, sconn_out := rest,
                  trace := trace t @ [RespWrite cresp None]\<rparr>)) \<and>
     (\<forall>t'. step_down w t = Some t' \<longrightarrow>
        (down t' = D_Exit \<longleftrightarrow>
           (down t = D_Recv \<and> chan t = [] \<and> chan_closed t) \<or>
           (\<exists>creq err rest. down t = D_Read creq \<and> rconn_in t = Inl err # rest) \<or>
           (\<exists>cresp err rest. down t = D_Write cresp \<and> sconn_out t = Some err # rest) \<or>
           (\<exists>cresp rest. down t = D_Write cresp \<and> sconn_out t = None # rest \<and>
              resp_Close cresp)) \<and>
        ((\<exists>f a. SessionError f a \<in> set (drop (length (trace t)) (trace t'))) \<longleftrightarrow>
           (\<exists>creq err rest. down t = D_Read creq \<and> rconn_in t = Inl err # rest \<and>
              err \<noteq> EOF) \<or>
           (\<exists>cresp err rest. down t = D_Write cresp \<and> sconn_out t = Some err # rest \<and>
              err \<noteq> EOF)))"
proof -
  have "set (rconn_in t) \<subseteq> set (rconn_in (relay_init w tr))"
    unfolding assms(2) by (rule run_rconn_in)
  with assms(1) have noeof: "Inl EOF \<notin> set (rconn_in t)"
    by (auto simp add: relay_init_def)
  have a: "down t = D_Recv \<and> chan t = [] \<and> chan_closed t \<longrightarrow>
        step_down w t = Some (t\<lparr>down := D_Exit, trace := trace t @ [ChanRecv None]\<rparr>)"
    using assms(3) by (simp add: step_down_def)
  have b: "\<forall>creq err rest. down t = D_Read creq \<and> rconn_in t = Inl err # rest \<longrightarrow>
        err \<noteq> EOF \<and>
        step_down w t =
          Some (t\<lparr>down := D_Exit, rconn_in := rest,
                  trace := trace t @
                    [ReadResponse creq (Inl err),
                     SessionError ''ReadResponse: %s'' [Error err]]\<rparr>)"
    using assms(3) noeof by (auto simp add: step_down_def)
  have c: "\<forall>cresp rest. down t = D_Write cresp \<and> sconn_out t = Some EOF # rest \<longrightarrow>
        step_down w t =
          Some (t\<lparr>down := D_Exit, sconn_out := rest,
                  trace := trace t @ [RespWrite cresp (Some EOF)]\<rparr>)"
    using assms(3) by (simp add: step_down_def)
  have d: "\<forall>cresp err rest. down t = D_Write cresp \<and> sconn_out t = Some err # rest \<and>
        err \<noteq> EOF \<longrightarrow>
        step_down w t =
          Some (t\<lparr>down := D_Exit, sconn_out := rest,
                  trace := trace t @
                    [RespWrite cresp (Some err), SessionError ''Write: %s'' [Error err]]\<rparr>)"
    using assms(3) by (simp add: step_down_def)
  have e: "\<forall>cresp rest. down t = D_Write cresp \<and> sconn_out t = None # rest \<and>
        resp_Close cresp \<longrightarrow>
        step_down w t =
          Some (t\<lparr>down := D_Exit, sconn_out := rest,
                  trace := trace t @ [RespWrite cresp None]\<rparr>)"
    using assms(3) by (simp add: step_down_def)
  have f: "\<forall>t'. step_down w t = Some t' \<longrightarrow>
        (down t' = D_Exit \<longleftrightarrow>
           (down t = D_Recv \<and> chan t = [] \<and> chan_closed t) \<or>
           (\<exists>creq err rest. down t = D_Read creq \<and> rconn_in t = Inl err # rest) \<or>
           (\<exists>cresp err rest. down t = D_Write cresp \<and> sconn_out t = Some err # rest) \<or>
           (\<exists>cresp rest. down t = D_Write cresp \<and> sconn_out t = None # rest \<and>
              resp_Close cresp)) \<and>
        ((\<exists>f a. SessionError f a \<in> set (drop (length (trace t)) (trace t'))) \<longleftrightarrow>
           (\<exists>creq err rest. down t = D_Read creq \<and> rconn_in t = Inl err # rest \<and>
              err \<noteq> EOF) \<or>
           (\<exists>cresp err rest. down t = D_Write cresp \<and> sconn_out t = Some err # rest \<and>
              err \<noteq> EOF))"
    using noeof
    by (auto simp add: step_down_def
        split: dpc.splits list.splits sum.splits option.splits if_splits)
  from a b c d e f show ?thesis by blast
qed


theorem downstream_loop_exit_witness:
  "step_down (ex_world_one [Inr (ex_response ''hello'' False)] [Some EOF]) ex_writing_eof =
     Some (ex_writing_eof\<lparr>down := D_Exit, sconn_out := [],
             trace := trace ex_writing_eof @
               [RespWrite (ex_response ''hello'' False) (Some EOF)]\<rparr>) \<and>
   Connect (ex_world_one [Inl (Failure ''unexpected EOF'')] []) ex_env ex_connect
       ex_sched_one =
     ex_setup_trace @
     [ReadRequest (Inr (ex_tunnel_request ''/'')), WriteProxy (ex_forwarded_path ''/'') None,
      ChanSend (ex_forwarded_path ''/''), ReadRequest (Inl EOF), ChanClose,
      ChanRecv (Some (ex_forwarded_path ''/'')),
      ReadResponse (ex_forwarded_path ''/'') (Inl (Failure ''unexpected EOF'')),
      SessionError ''ReadResponse: %s'' [''unexpected EOF''],
      SessionInfo ''CLOSE %s'' [''1ms''], SconnClose, RconnClose, ConnClose] \<and>
   Connect (ex_world_one [Inr (ex_response ''hello'' False)] [Some EOF]) ex_env ex_connect
       ex_sched_one =
     ex_setup_trace @
     [ReadRequest (Inr (ex_tunnel_request ''/'')), WriteProxy (ex_forwarded_path ''/'') None,
      ChanSend (ex_forwarded_path ''/''), ReadRequest (Inl EOF), ChanClose,
      ChanRecv (Some (ex_forwarded_path ''/'')),
      ReadResponse (ex_forwarded_path ''/'') (Inr (ex_response ''hello'' False)),
      RespWrite (ex_response ''hello'' False) (Some EOF),
      SessionInfo ''CLOSE %s'' [''1ms''], BodyClose (ex_response ''hello'' False),
      SconnClose, RconnClose, ConnClose] \<and>
   Connect (ex_world_one [Inr (ex_response ''hello'' False)] [Some (Failure ''broken pipe'')])
       ex_env ex_connect ex_sched_one =
     ex_setup_trace @
     [ReadRequest (Inr (ex_tunnel_request ''/'')), WriteProxy (ex_forwarded_path ''/'') None,
      ChanSend (ex_forwarded_path ''/''), ReadRequest (Inl EOF), ChanClose,
      ChanRecv (Some (ex_forwarded_path ''/'')),
      ReadResponse (ex_forwarded_path ''/'') (Inr (ex_response ''hello'' False)),
      RespWrite (ex_response ''hello'' False) (Some (Failure ''broken pipe'')),
      SessionError ''Write: %s'' [''broken pipe''],
      SessionInfo ''CLOSE %s'' [''1ms''], BodyClose (ex_response ''hello'' False),
      SconnClose, RconnClose, ConnClose] \<and>
   Connect (ex_world_one [Inr (ex_response ''bye'' True)] [None]) ex_env ex_connect
       ex_sched_one =
     ex_setup_trace @
     [ReadRequest (Inr (ex_tunnel_request ''/'')), WriteProxy (ex_forwarded_path ''/'') None,
      ChanSend (ex_forwarded_path ''/''), ReadRequest (Inl EOF), ChanClose,
      ChanRecv (Some (ex_forwarded_path ''/'')),
      ReadResponse (ex_forwarded_path ''/'') (Inr (ex_response ''bye'' True)),
      RespWrite (ex_response ''bye'' True) None,
      SessionInfo ''CLOSE %s'' [''1ms''], BodyClose (ex_response ''bye'' True),
      SconnClose, RconnClose, ConnClose] \<and>
   Connect (ex_world_one [Inr (ex_response ''hello'' False)] [None]) ex_env ex_connect
       ex_sched_one =
     ex_setup_trace @
     [ReadRequest (Inr (ex_tunnel_request ''/'')), WriteProxy (ex_forwarded_path ''/'') None,
      ChanSend (ex_forwarded_path ''/''), ReadRequest (Inl EOF), ChanClose,
      ChanRecv (Some (ex_forwarded_path ''/'')),
      ReadResponse (ex_forwarded_path ''/'') (Inr (ex_response ''hello'' False)),
      RespWrite (ex_response ''hello'' False) None, ChanRecv None,
      SessionInfo ''CLOSE %s'' [''1ms''], BodyClose (ex_response ''hello'' False),
      SconnClose, RconnClose, ConnClose]"
proof -
  have noeof: "Inl EOF \<notin> set (ReadResponse_rconn
      (ex_world_one [Inr (ex_response ''hello'' False)] [Some EOF]))"
    by simp
  have alive: "up ex_writing_eof \<noteq> U_Panicked" using ex_writing_eof_eval by simp
  from downstream_loop_exit [OF noeof ex_writing_eof_def alive]
  have "\<forall>cresp rest. down ex_writing_eof = D_Write cresp \<and>
      sconn_out ex_writing_eof = Some EOF # rest \<longrightarrow>
      step_down (ex_world_one [Inr (ex_response ''hello'' False)] [Some EOF]) ex_writing_eof =
        Some (ex_writing_eof\<lparr>down := D_Exit, sconn_out := rest,
                trace := trace ex_writing_eof @ [RespWrite cresp (Some EOF)]\<rparr>)"
    by blast
  with ex_writing_eof_eval have
    "step_down (ex_world_one [Inr (ex_response ''hello'' False)] [Some EOF]) ex_writing_eof =
       Some (ex_writing_eof\<lparr>down := D_Exit, sconn_out := [],
               trace := trace ex_writing_eof @
                 [RespWrite (ex_response ''hello'' False) (Some EOF)]\<rparr>)"
    by blast
  with ex_one_traces show ?thesis by (simp only: simp_thms)
qed

text \<open>
  C8. Each operation refuses the method of the other and does nothing else: on a
  CONNECT request the whole trace of \<open>Serve\<close> is one error report, and on any other
  request the whole trace of \<open>Connect\<close> is one error report.
\<close>

theorem wrong_method_rejected:
  "(req_Method (Request s) = ''CONNECT'' \<longrightarrow>
      Serve w e s = [SessionError ''this function can not handle CONNECT method'' []]) \<and>
   (req_Method (Request s) \<noteq> ''CONNECT'' \<longrightarrow>
      Connect w e s sched = [SessionError ''this function can only handle CONNECT method'' []])"
  by (simp add: Serve_def Connect_def Connect_setup_def)

theorem wrong_method_rejected_witness:
  "Serve ex_world ex_env ex_connect =
     [SessionError ''this function can not handle CONNECT method'' []] \<and>
   Connect ex_world ex_env ex_plain [Up, Down] =
     [SessionError ''this function can only handle CONNECT method'' []]"
  using wrong_method_rejected [of ex_connect ex_world ex_env]
    wrong_method_rejected [of ex_plain ex_world ex_env "[Up, Down]"]
  by (simp add: ex_connect_def ex_plain_def ex_session_def ex_request_def)

text \<open>
  C9, as amended. For a request that is not a CONNECT, \<open>Serve\<close> serializes the request
  with \<open>WriteProxy\<close>, posts the bytes with content type \<open>application/data\<close> to
  \<open>https://<AppSpot>.appspot.com/http\<close> (to \<open>http://localhost:8080/http\<close>, over plain
  HTTP, when \<open>AppSpot\<close> is \<open>debug\<close>), reads the status line and the headers of the
  embedded response, copies its headers and status code to the client, and then reads
  its body from the upstream and streams it to the client. A failure of any of these
  calls, and an answer with status 500, is reported with \<open>Session.Error\<close> and nothing
  further is done but the deferred closes; a failure while the body is streamed comes
  after the headers and the status have been written.
\<close>

theorem serve_relay:
  assumes "req_Method (Request s) \<noteq> ''CONNECT''"
  shows
    "(\<forall>buf resp cres.
        WriteProxy_buf w (Request s) = Inr buf \<and>
        Post w (post_url e) ''application/data'' buf = Inr resp \<and>
        resp_StatusCode resp \<noteq> 500 \<and>
        ReadResponse_body w resp (Request s) = Inr cres \<and> io_Copy w cres = None \<longrightarrow>
        Serve w e s =
          [BufWriteProxy (Request s), HTTPPost (post_url e) ''application/data'' buf,
           ReadEmbedded resp (Request s), CopyHeader cres, WriteHeader (resp_StatusCode cres),
           CopyBody cres, SessionInfo ''RESPONSE %s %s'' [resp_Status resp, Since w],
           BodyClose cres, BodyClose resp]) \<and>
     post_url e =
       (if AppSpot e = ''debug'' then ''http://localhost:8080/http''
        else ''https://'' @ AppSpot e @ ''.appspot.com/http'') \<and>
     (\<forall>err. WriteProxy_buf w (Request s) = Inl err \<longrightarrow>
        Serve w e s = [BufWriteProxy (Request s), SessionError ''WriteProxy: %s'' [Error err]]) \<and>
     (\<forall>buf err.
        WriteProxy_buf w (Request s) = Inr buf \<and>
        Post w (post_url e) ''application/data'' buf = Inl err \<longrightarrow>
        Serve w e s =
          [BufWriteProxy (Request s), HTTPPost (post_url e) ''application/data'' buf,
           SessionError ''Post: %s'' [Error err]]) \<and>
     (\<forall>buf resp.
        WriteProxy_buf w (Request s) = Inr buf \<and>
        Post w (post_url e) ''application/data'' buf = Inr resp \<and>
        resp_StatusCode resp = 500 \<longrightarrow>
        Serve w e s =
          [BufWriteProxy (Request s), HTTPPost (post_url e) ''application/data'' buf,
           SessionError ''%s %s'' [req_Method (Request s), resp_Status resp],
           BodyClose resp]) \<and>
     (\<forall>buf resp err.
        WriteProxy_buf w (Request s) = Inr buf \<and>
        Post w (post_url e) ''application/data'' buf = Inr resp \<and>
        resp_StatusCode resp \<noteq> 500 \<and>
        ReadResponse_body w resp (Request s) = Inl err \<longrightarrow>
        Serve w e s =
          [BufWriteProxy (Request s), HTTPPost (post_url e) ''application/data'' buf,
           ReadEmbedded resp (Request s), SessionError ''ReadResponse: %s'' [Error err],
           BodyClose resp]) \<and>
     (\<forall>buf resp cres err.
        WriteProxy_buf w (Request s) = Inr buf \<and>
        Post w (post_url e) ''application/data'' buf = Inr resp \<and>
        resp_StatusCode resp \<noteq> 500 \<and>
        ReadResponse_body w resp (Request s) = Inr cres \<and> io_Copy w cres = Some err \<longrightarrow>
        Serve w e s =
          [BufWriteProxy (Request s), HTTPPost (post_url e) ''application/data'' buf,
           ReadEmbedded resp (Request s), CopyHeader cres, WriteHeader (resp_StatusCode cres),
           CopyBody cres, SessionError ''Copy: %s'' [Error err],
           BodyClose cres, BodyClose resp])"
proof -
  have "post_url e =
       (if AppSpot e = ''debug'' then ''http://localhost:8080/http''
        else ''https://'' @ AppSpot e @ ''.appspot.com/http'')"
    by (simp add: post_url_def)
  with assms show ?thesis by (simp add: Serve_def Let_def)
qed

theorem serve_relay_witness:
  "Serve ex_world ex_env ex_plain =
     [BufWriteProxy (Request ex_plain),
      HTTPPost ''https://mallory.appspot.com/http'' ''application/data''
        ''GET http://example.com/ HTTP/1.1'',
      ReadEmbedded (ex_response ''HTTP/1.1 200 OK'' False) (Request ex_plain),
      CopyHeader (ex_response ''hello'' False), WriteHeader 200,
      CopyBody (ex_response ''hello'' False),
      SessionInfo ''RESPONSE %s %s'' [''200 OK'', ''1ms''],
      BodyClose (ex_response ''hello'' False),
      BodyClose (ex_response ''HTTP/1.1 200 OK'' False)]"
proof -
  have m: "req_Method (Request ex_plain) \<noteq> ''CONNECT''" by simp
  have u: "post_url ex_env = ''https://mallory.appspot.com/http''"
    by (simp add: post_url_def)
  from serve_relay [OF m, of ex_world ex_env] have
    "\<forall>buf resp cres.
        WriteProxy_buf ex_world (Request ex_plain) = Inr buf \<and>
        Post ex_world (post_url ex_env) ''application/data'' buf = Inr resp \<and>
        resp_StatusCode resp \<noteq> 500 \<and>
        ReadResponse_body ex_world resp (Request ex_plain) = Inr cres \<and>
        io_Copy ex_world cres = None \<longrightarrow>
        Serve ex_world ex_env ex_plain =
          [BufWriteProxy (Request ex_plain),
           HTTPPost (post_url ex_env) ''application/data'' buf,
           ReadEmbedded resp (Request ex_plain), CopyHeader cres,
           WriteHeader (resp_StatusCode cres), CopyBody cres,
           SessionInfo ''RESPONSE %s %s'' [resp_Status resp, Since ex_world],
           BodyClose cres, BodyClose resp]"
    by (rule conjunct1)
  from this [rule_format, of "''GET http://example.com/ HTTP/1.1''"
      "ex_response ''HTTP/1.1 200 OK'' False" "ex_response ''hello'' False"] u
  show ?thesis by simp
qed

text \<open>
  C9 as stated fails in two places. With \<open>AppSpot\<close> set to \<open>debug\<close> a request is
  relayed successfully by a POST to \<open>http://localhost:8080/http\<close>, which is not an HTTPS
  POST. And the embedded response is not read back in full before its headers and
  status are copied: when it breaks off in its body, the headers and the status have
  already been written to the client.
\<close>

theorem serve_debug_post_counterexample:
  "Serve ex_world ex_debug_env ex_plain =
     [BufWriteProxy (Request ex_plain),
      HTTPPost ''http://localhost:8080/http'' ''application/data''
        ''GET http://example.com/ HTTP/1.1'',
      ReadEmbedded (ex_response ''HTTP/1.1 200 OK'' False) (Request ex_plain),
      CopyHeader (ex_response ''hello'' False), WriteHeader 200,
      CopyBody (ex_response ''hello'' False),
      SessionInfo ''RESPONSE %s %s'' [''200 OK'', ''1ms''],
      BodyClose (ex_response ''hello'' False),
      BodyClose (ex_response ''HTTP/1.1 200 OK'' False)] \<and>
   \<not> prefix ''https://'' ''http://localhost:8080/http'' \<and>
   Serve ex_world_copyfail ex_env ex_plain =
     [BufWriteProxy (Request ex_plain),
      HTTPPost ''https://mallory.appspot.com/http'' ''application/data''
        ''GET http://example.com/ HTTP/1.1'',
      ReadEmbedded (ex_response ''HTTP/1.1 200 OK'' False) (Request ex_plain),
      CopyHeader (ex_response ''hello'' False), WriteHeader 200,
      CopyBody (ex_response ''hello'' False),
      SessionError ''Copy: %s'' [''unexpected EOF''],
      BodyClose (ex_response ''hello'' False),
      BodyClose (ex_response ''HTTP/1.1 200 OK'' False)]"
  by (simp add: Serve_def Let_def post_url_def ex_debug_env_def ex_world_copyfail_def
      ex_world_def)

text \<open>
  C10. When \<open>url.Parse\<close> fails on the rewritten URL of a request read by the upstream
  loop, the loop neither stops nor reports the error: its step logs nothing but the
  read, and the next thing it does is to call \<open>WriteProxy\<close> on the request, whose URL
  is now nil.
\<close>

theorem parse_error_discarded:
  assumes "up t = U_Read" and "sconn_in t = Inr creq # rest" and "req_URL creq = Some u"
    and "url_Parse w (''https://'' @ host @ url_String w u) = Inl err"
    and "rconn_out t = x # rest'"
  shows "\<exists>creq'. req_URL creq' = None \<and>
           step_up w host s t =
             Some (t\<lparr>up := U_Write creq', sconn_in := rest,
                     trace := trace t @ [ReadRequest (Inr creq)]\<rparr>) \<and>
           take (length (trace t) + 2) (trace (run w host s [Up, Up] t)) =
             trace t @ [ReadRequest (Inr creq), WriteProxy creq' x]"
proof -
  have "req_URL (rewrite w host s creq u) = None" using assms(4) by simp
  moreover have "step_up w host s t =
      Some (t\<lparr>up := U_Write (rewrite w host s creq u), sconn_in := rest,
              trace := trace t @ [ReadRequest (Inr creq)]\<rparr>)"
    using assms(1-3) by (simp add: step_up_def)
  moreover have "take (length (trace t) + 2) (trace (run w host s [Up, Up] t)) =
      trace t @ [ReadRequest (Inr creq), WriteProxy (rewrite w host s creq u) x]"
    using assms(1-3,5) by (cases x) (simp_all add: step_def step_up_def)
  ultimately show ?thesis by blast
qed

theorem parse_error_discarded_witness:
  "\<exists>creq'. req_URL creq' = None \<and>
     step_up ex_world_v6 ''::ffff'' ex_connect_v6 (relay_init ex_world_v6 []) =
       Some ((relay_init ex_world_v6 [])\<lparr>up := U_Write creq', sconn_in := [],
               trace := trace (relay_init ex_world_v6 []) @
                 [ReadRequest (Inr (ex_tunnel_request ''/''))]\<rparr>) \<and>
     take (length (trace (relay_init ex_world_v6 [])) + 2)
         (trace (run ex_world_v6 ''::ffff'' ex_connect_v6 [Up, Up] (relay_init ex_world_v6 []))) =
       trace (relay_init ex_world_v6 []) @
         [ReadRequest (Inr (ex_tunnel_request ''/'')),
          WriteProxy creq' (Some (Failure ''http: nil Request.URL''))]"
proof -
  have a: "up (relay_init ex_world_v6 []) = U_Read" by (simp add: relay_init_def)
  have b: "sconn_in (relay_init ex_world_v6 []) = Inr (ex_tunnel_request ''/'') # []"
    by (simp add: relay_init_def ex_world_v6_def ex_world_def)
  have c: "req_URL (ex_tunnel_request ''/'') = Some (ex_path_url ''/'')" by simp
  have d: "url_Parse ex_world_v6 (''https://'' @ ''::ffff'' @ url_String ex_world_v6 (ex_path_url ''/'')) =
    Inl (Failure ''invalid port after host'')"
    by (simp add: ex_world_v6_def ex_world_def ex_Parse_def ex_path_url_def)
  have e: "rconn_out (relay_init ex_world_v6 []) = Some (Failure ''http: nil Request.URL'') # []"
    by (simp add: relay_init_def ex_world_v6_def ex_world_def)
  from parse_error_discarded [OF a b c d e, of ex_connect_v6] show ?thesis .
qed

end
